theory Spec2Isabelle
  imports Complex_Main
begin

section \<open>Data model\<close>

text \<open>
  The rows of the \<open>products\<close> table as the database driver hands them to the request
  path. The primary key column \<open>id\<close> is called \<open>product_id\<close> here. The columns
  \<open>category\<close>, \<open>tags\<close> and \<open>vendor\<close> are nullable text columns (\<open>None\<close> is NULL);
  \<open>tags\<close> holds the single primary tag. The column \<open>price\<close> is \<open>NUMERIC\<close>: no type
  parser is installed on the pool, so the driver returns its value as the decimal
  text of the number (\<open>30\<close>, \<open>29.99\<close>), a string, and that is what \<open>price\<close> holds.
  The two scores are \<open>FLOAT\<close> columns and \<open>stock\<close> is an \<open>INT\<close> column, which arrive
  as numbers; \<open>variants\<close> is a \<open>JSONB\<close> column, which arrives parsed, so a variant's
  price is the number of the catalogue. Numbers are modelled as reals. The
  \<open>embedding\<close>, \<open>weight\<close> and timestamp columns play no part in any operation below
  and are left out.
\<close>

record ProductVariant =
  variant_id :: int
  variant_title :: string
  variant_price :: real
  inventory_quantity :: int

record DBProduct =
  product_id :: int
  shop_id :: string
  title :: string
  category :: "string option"
  tags :: "string option"
  vendor :: "string option"
  price :: string
  variants :: "ProductVariant list"
  status :: string
  stock :: int
  merchant_score :: real
  purchase_score :: real

section \<open>Scoring engine (\<open>computeProductScores\<close>)\<close>

text \<open>
  The CASE expression of the first UPDATE statement, branch by branch.
\<close>

definition merchant_score_case :: "int \<Rightarrow> real" where
  "merchant_score_case s =
     (if s > 50 then 1.0
      else if s > 20 then 0.7
      else if s > 0 then 0.4
      else 0.1)"

text \<open>
  Two UPDATE statements over the rows of one shop. \<open>RANDOM()\<close> is an external source of
  values; it is a parameter giving the value drawn for each row.
\<close>

definition computeProductScores :: "(int \<Rightarrow> real) \<Rightarrow> string \<Rightarrow> DBProduct list \<Rightarrow> DBProduct list" where
  "computeProductScores random shopId db =
     (let db1 = map (\<lambda>p. if shop_id p = shopId
                          then p\<lparr>merchant_score := merchant_score_case (stock p)\<rparr>
                          else p) db;
          db2 = map (\<lambda>p. if shop_id p = shopId
                          then p\<lparr>purchase_score := random (product_id p) * 0.5 + 0.5\<rparr>
                          else p) db1
      in db2)"

section \<open>JavaScript helpers\<close>

text \<open>
  Strings are byte lists; \<open>toLowerCase\<close>, \<open>trim\<close> and the regular-expression class
  \<open>\s\<close> are modelled on ASCII (space, tab, line feed, vertical tab, form feed,
  carriage return).
\<close>

definition is_space :: "char \<Rightarrow> bool" where
  "is_space c = (c \<in> set [CHR '' '', CHR 0x09, CHR 0x0A, CHR 0x0B, CHR 0x0C, CHR 0x0D])"

definition toLowerCase_char :: "char \<Rightarrow> char" where
  "toLowerCase_char c =
     (let n = (of_char c :: nat) in if 65 \<le> n \<and> n \<le> 90 then char_of (n + 32) else c)"

definition toLowerCase :: "string \<Rightarrow> string" where
  "toLowerCase s = map toLowerCase_char s"

definition trim :: "string \<Rightarrow> string" where
  "trim s = rev (dropWhile is_space (rev (dropWhile is_space s)))"

text \<open>
  A JavaScript \<open>Set\<close> keeps its members in insertion order and ignores a second
  \<open>add\<close> of the same value; \<open>Array.from\<close> lists the members in that order.
\<close>

definition Set_add :: "'a \<Rightarrow> 'a list \<Rightarrow> 'a list" where
  "Set_add x s = (if x \<in> set s then s else s @ [x])"

text \<open>\<open>x || d\<close> on a number: zero is falsy.\<close>

definition number_or :: "real \<Rightarrow> real \<Rightarrow> real" where
  "number_or x d = (if x = 0 then d else x)"

text \<open>
  The conversion of a string to a number, as the division operator applies it to a
  string operand: white space at both ends is dropped; the empty text is 0; an
  optional sign is followed by digits with an optional point and fraction, or by a
  point and a fraction; a text of any other shape is not a number, here \<open>None\<close>. The
  texts converted below are the digit 0 followed by price texts, which hold digits,
  the point and the minus sign only; the other literal forms of the language
  (exponents, radix prefixes, \<open>Infinity\<close>) need characters that a price text does not
  hold and are not recognised here.
\<close>

definition is_digit :: "char \<Rightarrow> bool" where
  "is_digit c = (let n = (of_char c :: nat) in 48 \<le> n \<and> n \<le> 57)"

definition digits_value :: "string \<Rightarrow> nat" where
  "digits_value ds = foldl (\<lambda>a c. 10 * a + (of_char c - 48)) 0 ds"

definition unsigned_decimal :: "string \<Rightarrow> real option" where
  "unsigned_decimal u =
     (let ip = takeWhile is_digit u; rest = dropWhile is_digit u
      in case rest of
           [] \<Rightarrow> if ip = [] then None else Some (real (digits_value ip))
         | c # fp \<Rightarrow>
             if c = CHR ''.'' \<and> list_all is_digit fp \<and> (ip \<noteq> [] \<or> fp \<noteq> [])
             then Some (real (digits_value ip) + real (digits_value fp) / 10 ^ length fp)
             else None)"

definition ToNumber :: "string \<Rightarrow> real option" where
  "ToNumber s =
     (let t = trim s
      in case t of
           [] \<Rightarrow> Some 0
         | c # u \<Rightarrow>
             if c = CHR ''-'' then map_option uminus (unsigned_decimal u)
             else if c = CHR ''+'' then unsigned_decimal u
             else unsigned_decimal t)"

section \<open>Errors\<close>

text \<open>
  Every \<open>throw\<close> and every rejected promise of the modelled code is a value of this type:
  a failed \<open>pool.connect\<close> or \<open>client.query\<close>, the two \<open>throw new Error\<close> of
  \<open>getRecommendations\<close> and \<open>getRecommendationsAPIConfig\<close>, and the failures of
  the ranking call chain.
\<close>

datatype error =
    StorageError
  | NoProductsFound
  | NoApiKeyFound
  | FetchFailed
  | NeurolinkFailed
  | ApiError nat string
  | ResponseJsonError
  | NoJsonFound
  | JsonParseError

section \<open>Configuration (\<open>config.limits\<close>)\<close>

record Limits =
  candidate_pool_size :: nat
  similarity_top_k :: nat
  final_recommendations :: nat

definition config_limits :: Limits where
  "config_limits = \<lparr>candidate_pool_size = 70, similarity_top_k = 20, final_recommendations = 10\<rparr>"

section \<open>Storage\<close>

text \<open>
  The two tables the request path reads, and what the storage engine does when asked:
  each \<open>pool.connect\<close> and each \<open>client.query\<close> either succeeds or is rejected.
  \<open>tag_graph\<close> has primary key \<open>tag_name\<close>; a lookup reads the first row with the name.
\<close>

record Storage =
  products_table :: "DBProduct list"
  tag_graph_table :: "(string \<times> string list) list"
  connect_fails_getRecommendations :: bool
  connect_fails_getRelatedTags :: bool
  query_fails_getProductsByIds :: bool
  query_fails_tag_graph :: "string \<Rightarrow> bool"
  query_fails_getCandidateProductsByTags :: bool

section \<open>Tag graph lookup (\<open>getRelatedTags\<close>)\<close>

text \<open>The body of the \<open>for (const tag of tags)\<close> loop, with the set built so far.\<close>

fun getRelatedTags_loop :: "Storage \<Rightarrow> string list \<Rightarrow> string list \<Rightarrow> error + string list" where
  "getRelatedTags_loop st [] relatedTagsSet = Inr relatedTagsSet"
| "getRelatedTags_loop st (tag # rest) relatedTagsSet =
     (if query_fails_tag_graph st tag then Inl StorageError
      else (case map_of (tag_graph_table st) tag of
              None \<Rightarrow> getRelatedTags_loop st rest relatedTagsSet
            | Some children \<Rightarrow>
                getRelatedTags_loop st rest (fold Set_add children relatedTagsSet)))"

text \<open>
  \<open>pool.connect\<close> is awaited before the \<open>try\<close>; the \<open>catch\<close> logs the error and
  returns the empty array. The parameter \<open>recommendationType\<close> is not read by the
  function and is left out.
\<close>

definition getRelatedTags :: "Storage \<Rightarrow> string list \<Rightarrow> nat \<Rightarrow> error + string list" where
  "getRelatedTags st tags_in maxTags =
     (if connect_fails_getRelatedTags st then Inl StorageError
      else (case getRelatedTags_loop st tags_in [] of
              Inr relatedTagsSet \<Rightarrow> Inr (take maxTags relatedTagsSet)
            | Inl e \<Rightarrow> Inr []))"

section \<open>Source lookup and candidate selection\<close>

text \<open>\<open>SELECT ... FROM products WHERE id = ANY($1)\<close>.\<close>

definition getProductsByIds :: "Storage \<Rightarrow> int list \<Rightarrow> error + DBProduct list" where
  "getProductsByIds st productIds =
     (if query_fails_getProductsByIds st then Inl StorageError
      else Inr (filter (\<lambda>p. product_id p \<in> set productIds) (products_table st)))"

definition composite_score :: "DBProduct \<Rightarrow> real" where
  "composite_score p = merchant_score p * 0.6 + purchase_score p * 0.4"

text \<open>The WHERE clause of the candidate query; a NULL tag matches no array member.\<close>

definition candidate_where :: "string \<Rightarrow> int list \<Rightarrow> string list \<Rightarrow> DBProduct \<Rightarrow> bool" where
  "candidate_where shopId excludeIds tags_in p =
     (shop_id p = shopId
      \<and> product_id p \<notin> set excludeIds
      \<and> status p = ''active''
      \<and> stock p > 0
      \<and> (case tags p of None \<Rightarrow> False | Some t \<Rightarrow> t \<in> set tags_in))"

text \<open>
  The rows of the SELECT: filtered, ordered by the composite score descending, cut at
  LIMIT. SQL leaves the order of rows with equal scores open; the model keeps them in
  table order (a stable sort on the negated score).
\<close>

definition candidate_rows :: "DBProduct list \<Rightarrow> string \<Rightarrow> string list \<Rightarrow> int list \<Rightarrow> nat \<Rightarrow> DBProduct list" where
  "candidate_rows db shopId tags_in excludeIds limit =
     take limit
       (sort_key (\<lambda>p. - composite_score p)
          (filter (candidate_where shopId excludeIds tags_in) db))"

definition getCandidateProductsByTags ::
  "Storage \<Rightarrow> string \<Rightarrow> string list \<Rightarrow> int list \<Rightarrow> nat \<Rightarrow> error + DBProduct list" where
  "getCandidateProductsByTags st shopId tags_in excludeIds limit =
     (if query_fails_getCandidateProductsByTags st then Inl StorageError
      else Inr (candidate_rows (products_table st) shopId tags_in excludeIds limit))"

section \<open>Ranking engine (\<open>findNearestProductsWithLLM\<close>)\<close>

text \<open>
  One entry of an output list: a candidate with one of its variants and the display
  fields. The fields \<open>id\<close>, \<open>title\<close>, \<open>variant_id\<close>, \<open>variant_title\<close>,
  \<open>category\<close>, \<open>price\<close>, \<open>vendor\<close>, \<open>merchant_score\<close> and \<open>purchase_score\<close> of
  \<open>ScoredProduct\<close> carry the prefix \<open>sp_\<close>.
\<close>

record ScoredProduct =
  sp_id :: int
  sp_title :: string
  sp_variant_id :: int
  sp_variant_title :: string
  sp_category :: "string option"
  sp_price :: real
  sp_vendor :: "string option"
  score :: real
  embedding_similarity :: real
  sp_merchant_score :: real
  sp_purchase_score :: real
  price_similarity :: real

record Ranked =
  upsell :: "ScoredProduct list"
  crosssell :: "ScoredProduct list"

subsection \<open>The fallback of the \<open>catch\<close> block\<close>

text \<open>
  \<open>sourceProducts.reduce((sum, p) => sum + p.price, 0) / sourceProducts.length\<close>.
  The accumulator starts as the number 0 and \<open>p.price\<close> is a string, so the first
  \<open>+\<close> turns the 0 into the text \<open>0\<close> and appends the price text to it, and every
  later \<open>+\<close> appends the next price text: \<open>sum\<close> ends as the digit 0 followed by
  the price texts in order. The division converts that text to a number. A text that
  is not a number gives not-a-number, here \<open>None\<close>, and so does \<open>0 / 0\<close> on an empty
  array; every comparison with it is false.
\<close>

definition avgPrice :: "DBProduct list \<Rightarrow> real option" where
  "avgPrice sourceProducts =
     (let sum = fold (\<lambda>p sum. sum @ price p) sourceProducts ''0''
      in case ToNumber sum of
           None \<Rightarrow> None
         | Some x \<Rightarrow> if sourceProducts = [] then None
                     else Some (x / real (length sourceProducts)))"

definition fallback_scored :: "DBProduct \<Rightarrow> ProductVariant \<Rightarrow> ScoredProduct" where
  "fallback_scored candidate variant =
     \<lparr>sp_id = product_id candidate,
      sp_title = title candidate,
      sp_variant_id = variant_id variant,
      sp_variant_title = variant_title variant,
      sp_category = category candidate,
      sp_price = variant_price variant,
      sp_vendor = vendor candidate,
      score = number_or (merchant_score candidate) 0.5,
      embedding_similarity = 0.7,
      sp_merchant_score = number_or (merchant_score candidate) 0.5,
      sp_purchase_score = number_or (purchase_score candidate) 0.5,
      price_similarity = 0.6\<rparr>"

definition isSameCategory :: "DBProduct list \<Rightarrow> DBProduct \<Rightarrow> bool" where
  "isSameCategory sourceProducts candidate =
     list_ex (\<lambda>p. category p = category candidate) sourceProducts"

definition isHigherPrice :: "real option \<Rightarrow> ProductVariant \<Rightarrow> bool" where
  "isHigherPrice avg variant =
     (case avg of None \<Rightarrow> False | Some a \<Rightarrow> variant_price variant \<ge> a)"

text \<open>The inner loop body: one variant is pushed onto exactly one of the two arrays.\<close>

definition fallback_variant ::
  "DBProduct list \<Rightarrow> DBProduct \<Rightarrow> real option \<Rightarrow> ProductVariant \<Rightarrow>
   ScoredProduct list \<times> ScoredProduct list \<Rightarrow> ScoredProduct list \<times> ScoredProduct list" where
  "fallback_variant sourceProducts candidate avg variant acc =
     (let scored = fallback_scored candidate variant
      in if isSameCategory sourceProducts candidate \<and> isHigherPrice avg variant
         then (fst acc @ [scored], snd acc)
         else (fst acc, snd acc @ [scored]))"

text \<open>The outer loop body: one candidate, all its variants in order.\<close>

definition fallback_candidate ::
  "DBProduct list \<Rightarrow> DBProduct \<Rightarrow>
   ScoredProduct list \<times> ScoredProduct list \<Rightarrow> ScoredProduct list \<times> ScoredProduct list" where
  "fallback_candidate sourceProducts candidate acc =
     (let avg = avgPrice sourceProducts
      in fold (fallback_variant sourceProducts candidate avg) (variants candidate) acc)"

definition fallback :: "DBProduct list \<Rightarrow> DBProduct list \<Rightarrow> Ranked" where
  "fallback sourceProducts candidates =
     (let acc = fold (fallback_candidate sourceProducts) (take 20 candidates) ([], [])
      in \<lparr>upsell = take (final_recommendations config_limits) (fst acc),
          crosssell = take (final_recommendations config_limits) (snd acc)\<rparr>)"

subsection \<open>The fallback as the specification words it\<close>

text \<open>
  The first 20 candidates, each paired with every one of its variants, in order; an
  entry is an upsell when the candidate's category is the category of some source
  product and the variant's price is at least the arithmetic mean of the source
  prices; each list is cut at ten entries. The price of a source product is the
  number its price text denotes. An entry names its candidate and its variant: the
  product id, title, category and vendor of the candidate and the id, title and price
  of the variant.
\<close>

definition price_value :: "DBProduct \<Rightarrow> real" where
  "price_value p = (case ToNumber (price p) of None \<Rightarrow> 0 | Some x \<Rightarrow> x)"

definition mean_price :: "DBProduct list \<Rightarrow> real" where
  "mean_price sourceProducts =
     sum_list (map price_value sourceProducts) / real (length sourceProducts)"

definition expand_variants :: "DBProduct list \<Rightarrow> (DBProduct \<times> ProductVariant) list" where
  "expand_variants cs = concat (map (\<lambda>c. map (\<lambda>v. (c, v)) (variants c)) cs)"

definition spec_is_upsell :: "DBProduct list \<Rightarrow> DBProduct \<times> ProductVariant \<Rightarrow> bool" where
  "spec_is_upsell sourceProducts e =
     ((\<exists>p \<in> set sourceProducts. category p = category (fst e))
      \<and> variant_price (snd e) \<ge> mean_price sourceProducts)"

text \<open>
  The two lists of the specification by what identifies an entry: product id, variant
  id and variant price.
\<close>

definition spec_entry :: "DBProduct \<times> ProductVariant \<Rightarrow> int \<times> int \<times> real" where
  "spec_entry e = (product_id (fst e), variant_id (snd e), variant_price (snd e))"

definition spec_upsell :: "DBProduct list \<Rightarrow> DBProduct list \<Rightarrow> (int \<times> int \<times> real) list" where
  "spec_upsell sourceProducts candidates =
     take 10 (map spec_entry
                (filter (spec_is_upsell sourceProducts) (expand_variants (take 20 candidates))))"

definition spec_crosssell :: "DBProduct list \<Rightarrow> DBProduct list \<Rightarrow> (int \<times> int \<times> real) list" where
  "spec_crosssell sourceProducts candidates =
     take 10 (map spec_entry
                (filter (\<lambda>e. \<not> spec_is_upsell sourceProducts e)
                   (expand_variants (take 20 candidates))))"

subsection \<open>Oracle configuration (\<open>getRecommendationsAPIConfig\<close>)\<close>

record Env =
  USE_NEUROLINK :: "string option"
  RECOMMENDATIONS_API_KEY :: "string option"
  GRID_AI_API_KEY :: "string option"

record ApiConfig =
  url :: string
  apiKey :: string
  useNeurolink :: bool

definition GRID_AI_URL :: string where
  "GRID_AI_URL = ''https://grid.ai.juspay.net/v1/chat/completions''"

definition GEMINI_URL :: string where
  "GEMINI_URL = ''https://generativelanguage.googleapis.com/v1beta/chat/completions''"

definition shouldUseNeurolink :: "Env \<Rightarrow> bool" where
  "shouldUseNeurolink env =
     (case USE_NEUROLINK env of None \<Rightarrow> False | Some v \<Rightarrow> toLowerCase v = ''true'')"

text \<open>\<open>process.env.GRID_AI_API_KEY || ''\<close> and the check that follows it.\<close>

definition grid_config :: "Env \<Rightarrow> error + ApiConfig" where
  "grid_config env =
     (let gridKey = (case GRID_AI_API_KEY env of None \<Rightarrow> [] | Some k \<Rightarrow> k)
      in if gridKey = [] then Inl NoApiKeyFound
         else Inr \<lparr>url = GRID_AI_URL, apiKey = gridKey, useNeurolink = False\<rparr>)"

definition getRecommendationsAPIConfig :: "Env \<Rightarrow> error + ApiConfig" where
  "getRecommendationsAPIConfig env =
     (if shouldUseNeurolink env
      then Inr \<lparr>url = [], apiKey = [], useNeurolink = True\<rparr>
      else (case RECOMMENDATIONS_API_KEY env of
              Some recommendationsKey \<Rightarrow>
                if recommendationsKey \<noteq> [] \<and> trim recommendationsKey \<noteq> []
                then Inr \<lparr>url = GEMINI_URL, apiKey = recommendationsKey, useNeurolink = False\<rparr>
                else grid_config env
            | None \<Rightarrow> grid_config env))"

subsection \<open>The oracle and the language run time\<close>

text \<open>
  What lies outside the repository answers through these four operations, each of
  which returns or throws: the SDK call \<open>neurolink.generate\<close> (its \<open>content\<close>), the
  HTTP call \<open>fetch\<close> (by URL and bearer key), the decoding of the response body down
  to \<open>data.choices?.[0]?.message?.content\<close> (\<open>None\<close> when the path is absent), and
  \<open>JSON.parse\<close> of the extracted text at the declared type
  \<open>{ upsell: number[]; crosssell: number[] }\<close> (\<open>None\<close> for an absent member). The
  prompt is a function of the two product lists and puts no constraint on the answer,
  so it is not an argument.
\<close>

record HttpResponse =
  response_status :: nat
  response_body :: string

record LLMRecommendation =
  upsell_ids :: "int list option"
  crosssell_ids :: "int list option"

record Oracle =
  neurolink_generate :: "error + string"
  fetch :: "string \<Rightarrow> string \<Rightarrow> error + HttpResponse"
  response_json_content :: "string \<Rightarrow> error + string option"
  JSON_parse :: "string \<Rightarrow> error + LLMRecommendation"

definition response_ok :: "HttpResponse \<Rightarrow> bool" where
  "response_ok r = (200 \<le> response_status r \<and> response_status r \<le> 299)"

definition llm_call :: "Oracle \<Rightarrow> ApiConfig \<Rightarrow> error + string" where
  "llm_call orc apiConfig =
     (if useNeurolink apiConfig then neurolink_generate orc
      else (case fetch orc (url apiConfig) (apiKey apiConfig) of
              Inl e \<Rightarrow> Inl e
            | Inr response \<Rightarrow>
                if \<not> response_ok response
                then Inl (ApiError (response_status response) (response_body response))
                else (case response_json_content orc (response_body response) of
                        Inl e \<Rightarrow> Inl e
                      | Inr content \<Rightarrow>
                          Inr (case content of
                                 None \<Rightarrow> ''{}''
                               | Some c \<Rightarrow> if c = [] then ''{}'' else c))))"

subsection \<open>Response text: fences and the brace match\<close>

text \<open>
  The first \<open>replace\<close> removes a leading fence of three backquotes, the word \<open>json\<close>
  if it follows, and the white space after it.
\<close>

definition fence :: string where
  "fence = [CHR 0x60, CHR 0x60, CHR 0x60]"

definition strip_fence_start :: "string \<Rightarrow> string" where
  "strip_fence_start s =
     (if take 3 s = fence
      then (let r = drop 3 s;
                r' = (if take 4 r = ''json'' then drop 4 r else r)
            in dropWhile is_space r')
      else s)"

text \<open>
  The second \<open>replace\<close> removes a fence followed only by white space up to the end of
  the text, with the line feed before the fence if there is one.
\<close>

definition strip_fence_end :: "string \<Rightarrow> string" where
  "strip_fence_end s =
     (let t = dropWhile is_space (rev s)
      in if take 3 t = fence
         then (let u = drop 3 t
               in rev (if take 1 u = [CHR 0x0A] then drop 1 u else u))
         else s)"

text \<open>
  The \<open>match\<close> takes the text from the first opening brace to the last closing brace
  after it.
\<close>

definition match_braces :: "string \<Rightarrow> string option" where
  "match_braces s =
     (let a = dropWhile (\<lambda>c. c \<noteq> CHR ''{'') s;
          b = rev (dropWhile (\<lambda>c. c \<noteq> CHR ''}'') (rev a))
      in if b = [] then None else Some b)"

definition parse_llm_response :: "Oracle \<Rightarrow> string \<Rightarrow> error + LLMRecommendation" where
  "parse_llm_response orc llmResponse =
     (let jsonText = trim (strip_fence_end (strip_fence_start llmResponse))
      in case match_braces jsonText of
           None \<Rightarrow> Inl NoJsonFound
         | Some jsonMatch \<Rightarrow> JSON_parse orc jsonMatch)"

subsection \<open>The success path of the \<open>try\<close> block\<close>

definition upsell_scored :: "DBProduct \<Rightarrow> ProductVariant \<Rightarrow> ScoredProduct" where
  "upsell_scored candidate variant =
     \<lparr>sp_id = product_id candidate,
      sp_title = title candidate,
      sp_variant_id = variant_id variant,
      sp_variant_title = variant_title variant,
      sp_category = category candidate,
      sp_price = variant_price variant,
      sp_vendor = vendor candidate,
      score = 0.9,
      embedding_similarity = 0.85,
      sp_merchant_score = number_or (merchant_score candidate) 0,
      sp_purchase_score = number_or (purchase_score candidate) 0,
      price_similarity = 0.8\<rparr>"

definition crosssell_scored :: "DBProduct \<Rightarrow> ProductVariant \<Rightarrow> ScoredProduct" where
  "crosssell_scored candidate variant =
     \<lparr>sp_id = product_id candidate,
      sp_title = title candidate,
      sp_variant_id = variant_id variant,
      sp_variant_title = variant_title variant,
      sp_category = category candidate,
      sp_price = variant_price variant,
      sp_vendor = vendor candidate,
      score = 0.85,
      embedding_similarity = 0.8,
      sp_merchant_score = number_or (merchant_score candidate) 0,
      sp_purchase_score = number_or (purchase_score candidate) 0,
      price_similarity = 0.75\<rparr>"

text \<open>
  One \<open>for (const productId of ...)\<close> loop: the first candidate with the id, if any,
  contributes one entry per variant; an id with no candidate is skipped.
\<close>

definition expand_ids ::
  "(DBProduct \<Rightarrow> ProductVariant \<Rightarrow> ScoredProduct) \<Rightarrow> DBProduct list \<Rightarrow> int list \<Rightarrow> ScoredProduct list" where
  "expand_ids mk candidateList ids =
     fold (\<lambda>productId out.
             case find (\<lambda>c. product_id c = productId) candidateList of
               None \<Rightarrow> out
             | Some candidate \<Rightarrow> out @ map (mk candidate) (variants candidate))
          ids []"

text \<open>\<open>recommendations.upsell || []\<close>: an absent member is the empty array.\<close>

definition or_empty :: "int list option \<Rightarrow> int list" where
  "or_empty ids = (case ids of None \<Rightarrow> [] | Some l \<Rightarrow> l)"

definition llm_ranked :: "DBProduct list \<Rightarrow> LLMRecommendation \<Rightarrow> Ranked" where
  "llm_ranked candidateList recommendations =
     (let up = expand_ids upsell_scored candidateList (or_empty (upsell_ids recommendations));
          cross = expand_ids crosssell_scored candidateList
                    (or_empty (crosssell_ids recommendations))
      in \<lparr>upsell = take (final_recommendations config_limits) up,
          crosssell = take (final_recommendations config_limits) cross\<rparr>)"

text \<open>The \<open>try\<close> block as a whole: the first failure ends it.\<close>

definition try_llm :: "Env \<Rightarrow> Oracle \<Rightarrow> DBProduct list \<Rightarrow> error + Ranked" where
  "try_llm env orc candidates =
     (case getRecommendationsAPIConfig env of
        Inl e \<Rightarrow> Inl e
      | Inr apiConfig \<Rightarrow>
          (case llm_call orc apiConfig of
             Inl e \<Rightarrow> Inl e
           | Inr llmResponse \<Rightarrow>
               (case parse_llm_response orc llmResponse of
                  Inl e \<Rightarrow> Inl e
                | Inr recommendations \<Rightarrow> Inr (llm_ranked candidates recommendations))))"

datatype rec_type = Upsell | Crosssell

definition findNearestProductsWithLLM ::
  "Env \<Rightarrow> Oracle \<Rightarrow> DBProduct list \<Rightarrow> DBProduct list \<Rightarrow> rec_type list \<Rightarrow> Ranked" where
  "findNearestProductsWithLLM env orc sourceProducts candidates recommendationType =
     (case try_llm env orc candidates of
        Inr ranked \<Rightarrow> ranked
      | Inl e \<Rightarrow> fallback sourceProducts candidates)"

section \<open>The request path (\<open>getRecommendations\<close> and its route)\<close>

definition collect_source_tags :: "DBProduct list \<Rightarrow> string list" where
  "collect_source_tags sourceProducts =
     fold (\<lambda>p allSourceTags.
             case tags p of
               None \<Rightarrow> allSourceTags
             | Some t \<Rightarrow> if t = [] then allSourceTags else Set_add t allSourceTags)
          sourceProducts []"

text \<open>Steps 2 to 4, from the source products on.\<close>

definition recommend_from_sources ::
  "Env \<Rightarrow> Oracle \<Rightarrow> Storage \<Rightarrow> string \<Rightarrow> int list \<Rightarrow> rec_type list \<Rightarrow> DBProduct list \<Rightarrow> error + Ranked" where
  "recommend_from_sources env orc st shopId productIds recommendationType sourceProducts =
     (let sourceTags = collect_source_tags sourceProducts
      in case getRelatedTags st sourceTags 50 of
           Inl e \<Rightarrow> Inl e
         | Inr relatedTags \<Rightarrow>
             (case getCandidateProductsByTags st shopId relatedTags productIds 100 of
                Inl e \<Rightarrow> Inl e
              | Inr candidateProducts \<Rightarrow>
                  if candidateProducts = [] then Inr \<lparr>upsell = [], crosssell = []\<rparr>
                  else Inr (findNearestProductsWithLLM env orc sourceProducts candidateProducts
                              recommendationType)))"

definition getRecommendations ::
  "Env \<Rightarrow> Oracle \<Rightarrow> Storage \<Rightarrow> string \<Rightarrow> int list \<Rightarrow> rec_type list \<Rightarrow> error + Ranked" where
  "getRecommendations env orc st shopId productIds recommendationType =
     (if connect_fails_getRecommendations st then Inl StorageError
      else (case getProductsByIds st productIds of
              Inl e \<Rightarrow> Inl e
            | Inr sourceProducts \<Rightarrow>
                if sourceProducts = [] then Inl NoProductsFound
                else recommend_from_sources env orc st shopId productIds recommendationType
                       sourceProducts))"

text \<open>
  The route \<open>POST /api/recommendations\<close>: 400 on a missing shop id or a missing or
  empty id array, 500 with the message of any error thrown, 200 with the lists.
\<close>

record RecommendationsBody =
  body_shop_id :: "string option"
  body_product_ids :: "int list option"
  body_recommendation_type :: "rec_type list option"

datatype HttpReply = Json200 Ranked | Json400 | Json500 error

definition post_api_recommendations :: "Env \<Rightarrow> Oracle \<Rightarrow> Storage \<Rightarrow> RecommendationsBody \<Rightarrow> HttpReply" where
  "post_api_recommendations env orc st body =
     (case body_shop_id body of
        None \<Rightarrow> Json400
      | Some shop \<Rightarrow>
          (case body_product_ids body of
             None \<Rightarrow> Json400
           | Some product_ids \<Rightarrow>
               if shop = [] \<or> product_ids = [] then Json400
               else (case getRecommendations env orc st shop product_ids
                            (case body_recommendation_type body of
                               None \<Rightarrow> [Upsell, Crosssell]
                             | Some r \<Rightarrow> r) of
                       Inl e \<Rightarrow> Json500 e
                     | Inr recommendations \<Rightarrow> Json200 recommendations)))"

section \<open>Tag normalizer (\<open>normalizeTags\<close>)\<close>

text \<open>
  The catalogue product as \<open>normalizeTags\<close> reads it; the fields carry the prefix
  \<open>c_\<close>. \<open>title\<close> and \<open>price\<close> are required by the interface; \<open>category\<close> and
  \<open>vendor\<close> are tested for truthiness before use and \<open>tags\<close> is optional, so the three
  are options (\<open>None\<close> for an absent member).
\<close>

record CatalogProduct =
  c_id :: int
  c_title :: string
  c_status :: string
  c_category :: "string option"
  c_price :: real
  c_vendor :: "string option"
  c_variants :: "ProductVariant list"
  c_tags :: "string list option"

definition isStopWord :: "string \<Rightarrow> bool" where
  "isStopWord word =
     (word \<in> set [''the'', ''and'', ''for'', ''with'', ''from'', ''this'', ''that'', ''pack''])"

definition getPriceRangeTag :: "real \<Rightarrow> string" where
  "getPriceRangeTag p =
     (if p < 30 then ''price:budget''
      else if p < 75 then ''price:mid''
      else if p < 150 then ''price:premium''
      else ''price:luxury'')"

text \<open>
  \<open>split(/[\s-]+/)\<close>: the pieces between maximal runs of white space and hyphens; a
  run at either end leaves an empty piece there. \<open>cur\<close> is the piece being read,
  reversed, and \<open>in_run\<close> tells that the previous character was a separator.
\<close>

definition is_title_sep :: "char \<Rightarrow> bool" where
  "is_title_sep c = (is_space c \<or> c = CHR ''-'')"

fun split_loop :: "string \<Rightarrow> bool \<Rightarrow> string \<Rightarrow> string list" where
  "split_loop cur in_run [] = [rev cur]"
| "split_loop cur in_run (c # cs) =
     (if is_title_sep c
      then (if in_run then split_loop cur True cs else rev cur # split_loop [] True cs)
      else split_loop (c # cur) False cs)"

definition split_title :: "string \<Rightarrow> string list" where
  "split_title s = split_loop [] False s"

text \<open>\<open>replace(/\s+/g, '-')\<close>: every maximal run of white space becomes one hyphen.\<close>

fun replace_spaces :: "bool \<Rightarrow> string \<Rightarrow> string" where
  "replace_spaces in_run [] = []"
| "replace_spaces in_run (c # cs) =
     (if is_space c
      then (if in_run then replace_spaces True cs else CHR ''-'' # replace_spaces True cs)
      else c # replace_spaces False cs)"

definition normalizeTags :: "CatalogProduct \<Rightarrow> string list" where
  "normalizeTags product =
     (let tags0 = [];
          tags1 = (case c_category product of
                     None \<Rightarrow> tags0
                   | Some cat \<Rightarrow> if cat = [] then tags0
                                else Set_add (trim (toLowerCase cat)) tags0);
          titleWords = split_title (toLowerCase (c_title product));
          tags2 = fold (\<lambda>word s. if length word > 3 \<and> \<not> isStopWord word
                                  then Set_add word s else s) titleWords tags1;
          tags3 = (case c_vendor product of
                     None \<Rightarrow> tags2
                   | Some v \<Rightarrow> if v = [] then tags2
                              else Set_add (''vendor:'' @ replace_spaces False (toLowerCase v)) tags2);
          priceTag = getPriceRangeTag (c_price product);
          tags4 = Set_add priceTag tags3;
          tags5 = (case c_tags product of
                     None \<Rightarrow> tags4
                   | Some ts \<Rightarrow> fold (\<lambda>tag s. Set_add (trim (toLowerCase tag)) s) ts tags4)
      in tags5)"

subsection \<open>The tag set as the specification words it, and with the trimming\<close>

text \<open>
  The five parts of the set. \<open>claimed_tags\<close> follows the specification: the
  lowercased category and the lowercased pre-existing tags. \<open>trimmed_tags\<close> differs
  in that the category and the pre-existing tags are also trimmed of white space at
  both ends.
\<close>

definition title_part :: "CatalogProduct \<Rightarrow> string set" where
  "title_part product =
     {w. w \<in> set (split_title (toLowerCase (c_title product))) \<and> length w > 3 \<and> \<not> isStopWord w}"

definition vendor_part :: "CatalogProduct \<Rightarrow> string set" where
  "vendor_part product =
     (case c_vendor product of
        None \<Rightarrow> {}
      | Some v \<Rightarrow> if v = [] then {} else {''vendor:'' @ replace_spaces False (toLowerCase v)})"

definition claimed_tags :: "CatalogProduct \<Rightarrow> string set" where
  "claimed_tags product =
     (case c_category product of
        None \<Rightarrow> {}
      | Some cat \<Rightarrow> if cat = [] then {} else {toLowerCase cat})
     \<union> title_part product
     \<union> vendor_part product
     \<union> {getPriceRangeTag (c_price product)}
     \<union> (case c_tags product of None \<Rightarrow> {} | Some ts \<Rightarrow> toLowerCase ` set ts)"

definition trimmed_tags :: "CatalogProduct \<Rightarrow> string set" where
  "trimmed_tags product =
     (case c_category product of
        None \<Rightarrow> {}
      | Some cat \<Rightarrow> if cat = [] then {} else {trim (toLowerCase cat)})
     \<union> title_part product
     \<union> vendor_part product
     \<union> {getPriceRangeTag (c_price product)}
     \<union> (case c_tags product of None \<Rightarrow> {} | Some ts \<Rightarrow> (\<lambda>t. trim (toLowerCase t)) ` set ts)"

definition ex_catalog_sneakers :: CatalogProduct where
  "ex_catalog_sneakers = \<lparr>c_id = 3001, c_title = ''The Canvas Hi-Top Sneakers'',
     c_status = ''active'', c_category = Some ''Footwear '', c_price = 90,
     c_vendor = Some ''Step  Style'',
     c_variants = [\<lparr>variant_id = 30011, variant_title = ''9'', variant_price = 90,
                    inventory_quantity = 25\<rparr>],
     c_tags = Some ['' Summer'', ''canvas'']\<rparr>"

section \<open>Precomputation orchestrator and its tracker (\<open>runPrecomputation\<close>)\<close>

text \<open>
  A row of \<open>process_tracker\<close>. The columns \<open>id\<close>, \<open>shop_id\<close> and \<open>status\<close> carry the
  prefix \<open>tracker_\<close>; time stamps are numbers; \<open>completed_at\<close> is nullable.
\<close>

record ProcessTracker =
  tracker_id :: nat
  tracker_shop_id :: string
  tracker_status :: string
  product_count :: nat
  started_at :: nat
  completed_at :: "nat option"
  last_run :: nat

text \<open>
  The four statements \<open>runPrecomputation\<close> issues against \<open>process_tracker\<close>: the
  INSERT of a running row (shop id, current time), the UPDATE of the product count
  (count, id), the UPDATE to completed (id, current time) and the UPDATE to failed
  (id). The serial \<open>id\<close> of a new row is one more than every id in the table.
\<close>

datatype tracker_stmt =
    InsertRunning string nat
  | UpdateProductCount nat nat
  | UpdateCompleted nat nat
  | UpdateFailed nat

definition next_tracker_id :: "ProcessTracker list \<Rightarrow> nat" where
  "next_tracker_id tbl = Suc (fold max (map tracker_id tbl) 0)"

fun exec_stmt :: "tracker_stmt \<Rightarrow> ProcessTracker list \<Rightarrow> ProcessTracker list" where
  "exec_stmt (InsertRunning shop now) tbl =
     tbl @ [\<lparr>tracker_id = next_tracker_id tbl, tracker_shop_id = shop,
             tracker_status = ''running'', product_count = 0, started_at = now,
             completed_at = None, last_run = now\<rparr>]"
| "exec_stmt (UpdateProductCount n i) tbl =
     map (\<lambda>r. if tracker_id r = i then r\<lparr>product_count := n\<rparr> else r) tbl"
| "exec_stmt (UpdateCompleted i now) tbl =
     map (\<lambda>r. if tracker_id r = i
               then r\<lparr>tracker_status := ''completed'', completed_at := Some now\<rparr> else r) tbl"
| "exec_stmt (UpdateFailed i) tbl =
     map (\<lambda>r. if tracker_id r = i then r\<lparr>tracker_status := ''failed''\<rparr> else r) tbl"

text \<open>
  What happens outside the tracker during one invocation: whether the connection and
  each tracker statement succeed, the number of products \<open>loadProductCatalog\<close>
  returns or the error it throws, the first error thrown by the steps between the
  count update and the completion update (embedding generation, saving the products,
  score computation, tag collection, tag graph build and save) if any, and the clock.
\<close>

record PrecomputeWorld =
  connect_ok :: bool
  insert_tracker_ok :: bool
  load_catalog :: "error + nat"
  update_count_ok :: bool
  pipeline :: "error + unit"
  mark_completed_ok :: bool
  mark_failed_ok :: bool
  clock_start :: nat
  clock_end :: nat

text \<open>
  The \<open>catch\<close> block: with a truthy \<open>trackerId\<close> the row is marked failed, and the
  caught error is thrown again; if the marking itself is rejected, that error leaves
  the block instead. \<open>done\<close> are the statements executed so far.
\<close>

definition on_failure ::
  "PrecomputeWorld \<Rightarrow> nat option \<Rightarrow> error \<Rightarrow> tracker_stmt list \<Rightarrow> (error + unit) \<times> tracker_stmt list" where
  "on_failure w trackerId e done =
     (case trackerId of
        None \<Rightarrow> (Inl e, done)
      | Some i \<Rightarrow>
          if i = 0 then (Inl e, done)
          else if mark_failed_ok w then (Inl e, done @ [UpdateFailed i])
          else (Inl StorageError, done))"

text \<open>
  The result of the invocation and the tracker statements it executed, in order.
  \<open>pool.connect\<close> is awaited before the \<open>try\<close>.
\<close>

definition runPrecomputation ::
  "PrecomputeWorld \<Rightarrow> string \<Rightarrow> ProcessTracker list \<Rightarrow> (error + unit) \<times> tracker_stmt list" where
  "runPrecomputation w shopId tbl =
     (if \<not> connect_ok w then (Inl StorageError, [])
      else if \<not> insert_tracker_ok w then on_failure w None StorageError []
      else (let trackerId = next_tracker_id tbl;
                s1 = [InsertRunning shopId (clock_start w)]
            in case load_catalog w of
                 Inl e \<Rightarrow> on_failure w (Some trackerId) e s1
               | Inr n \<Rightarrow>
                   if \<not> update_count_ok w then on_failure w (Some trackerId) StorageError s1
                   else (let s2 = s1 @ [UpdateProductCount n trackerId]
                         in case pipeline w of
                              Inl e \<Rightarrow> on_failure w (Some trackerId) e s2
                            | Inr u \<Rightarrow>
                                if \<not> mark_completed_ok w
                                then on_failure w (Some trackerId) StorageError s2
                                else (Inr (), s2 @ [UpdateCompleted trackerId (clock_end w)]))))"

text \<open>The status of row \<open>i\<close> after each statement, in order.\<close>

fun status_history :: "nat \<Rightarrow> tracker_stmt list \<Rightarrow> ProcessTracker list \<Rightarrow> string list" where
  "status_history i [] tbl = []"
| "status_history i (s # ss) tbl =
     map tracker_status (filter (\<lambda>r. tracker_id r = i) (exec_stmt s tbl))
       @ status_history i ss (exec_stmt s tbl)"

section \<open>Example catalogue\<close>

text \<open>
  A small shop: a T-shirt (the source product of the examples), three products whose
  primary tags the tag graph relates to the T-shirt's, an inactive product, a product
  without stock, a product of another shop, and a tank top (a second source product).
\<close>

definition ex_tshirt :: DBProduct where
  "ex_tshirt = \<lparr>product_id = 1001, shop_id = ''shop_1'', title = ''Classic Cotton T-Shirt'',
     category = Some ''t-shirts'', tags = Some ''t-shirt'', vendor = Some ''BasicWear Co.'',
     price = ''30'',
     variants = [\<lparr>variant_id = 10011, variant_title = ''Small'', variant_price = 30,
                  inventory_quantity = 50\<rparr>],
     status = ''active'', stock = 50, merchant_score = 0.7, purchase_score = 0.5\<rparr>"

definition ex_polo :: DBProduct where
  "ex_polo = \<lparr>product_id = 1003, shop_id = ''shop_1'', title = ''Premium Polo'',
     category = Some ''t-shirts'', tags = Some ''polo'', vendor = Some ''PremiumFit'',
     price = ''40'',
     variants = [\<lparr>variant_id = 10031, variant_title = ''Small'', variant_price = 40,
                  inventory_quantity = 30\<rparr>,
                 \<lparr>variant_id = 10032, variant_title = ''Outlet'', variant_price = 25,
                  inventory_quantity = 30\<rparr>],
     status = ''active'', stock = 60, merchant_score = 1, purchase_score = 0.5\<rparr>"

definition ex_jeans :: DBProduct where
  "ex_jeans = \<lparr>product_id = 2001, shop_id = ''shop_1'', title = ''Slim Fit Denim Jeans'',
     category = Some ''pants'', tags = Some ''jeans'', vendor = Some ''DenimDreams'',
     price = ''80'',
     variants = [\<lparr>variant_id = 20011, variant_title = ''32x32'', variant_price = 80,
                  inventory_quantity = 10\<rparr>],
     status = ''active'', stock = 10, merchant_score = 0.4, purchase_score = 0.5\<rparr>"

definition ex_sneakers :: DBProduct where
  "ex_sneakers = \<lparr>product_id = 3001, shop_id = ''shop_1'', title = ''Canvas Sneakers'',
     category = Some ''footwear'', tags = Some ''sneakers'', vendor = Some ''StepStyle'',
     price = ''90'',
     variants = [\<lparr>variant_id = 30011, variant_title = ''9'', variant_price = 90,
                  inventory_quantity = 25\<rparr>],
     status = ''active'', stock = 25, merchant_score = 0.7, purchase_score = 0.5\<rparr>"

definition ex_draft :: DBProduct where
  "ex_draft = \<lparr>product_id = 4001, shop_id = ''shop_1'', title = ''Bootcut Jeans'',
     category = Some ''pants'', tags = Some ''jeans'', vendor = Some ''DenimDreams'',
     price = ''70'',
     variants = [\<lparr>variant_id = 40011, variant_title = ''32'', variant_price = 70,
                  inventory_quantity = 5\<rparr>],
     status = ''draft'', stock = 5, merchant_score = 0.4, purchase_score = 0.5\<rparr>"

definition ex_sold_out :: DBProduct where
  "ex_sold_out = \<lparr>product_id = 5001, shop_id = ''shop_1'', title = ''Running Shoes'',
     category = Some ''footwear'', tags = Some ''sneakers'', vendor = Some ''SportStride'',
     price = ''95'',
     variants = [\<lparr>variant_id = 50011, variant_title = ''10'', variant_price = 95,
                  inventory_quantity = 0\<rparr>],
     status = ''active'', stock = 0, merchant_score = 0.1, purchase_score = 0.5\<rparr>"

definition ex_foreign :: DBProduct where
  "ex_foreign = \<lparr>product_id = 7001, shop_id = ''shop_2'', title = ''Graphic T-Shirt'',
     category = Some ''t-shirts'', tags = Some ''t-shirt'', vendor = Some ''TrendyThreads'',
     price = ''20'',
     variants = [\<lparr>variant_id = 70011, variant_title = ''Medium'', variant_price = 20,
                  inventory_quantity = 8\<rparr>],
     status = ''active'', stock = 8, merchant_score = 0.4, purchase_score = 0.5\<rparr>"

definition ex_tank :: DBProduct where
  "ex_tank = \<lparr>product_id = 1002, shop_id = ''shop_1'', title = ''Basic Tank Top'',
     category = Some ''t-shirts'', tags = Some ''t-shirt'', vendor = Some ''BasicWear Co.'',
     price = ''20'',
     variants = [\<lparr>variant_id = 10021, variant_title = ''Medium'', variant_price = 20,
                  inventory_quantity = 40\<rparr>],
     status = ''active'', stock = 40, merchant_score = 0.7, purchase_score = 0.5\<rparr>"

definition ex_products :: "DBProduct list" where
  "ex_products = [ex_tshirt, ex_jeans, ex_polo, ex_sneakers, ex_draft, ex_sold_out, ex_foreign,
                  ex_tank]"

definition ex_storage :: Storage where
  "ex_storage = \<lparr>products_table = ex_products,
     tag_graph_table = [(''t-shirt'', [''jeans'', ''sneakers'', ''polo''])],
     connect_fails_getRecommendations = False,
     connect_fails_getRelatedTags = False,
     query_fails_getProductsByIds = False,
     query_fails_tag_graph = (\<lambda>tag. False),
     query_fails_getCandidateProductsByTags = False\<rparr>"

section \<open>Further examples and auxiliary definitions\<close>

subsection \<open>Ranking\<close>

text \<open>The test of the fallback's inner loop, as a predicate on a candidate paired with a variant.\<close>

definition goes_upsell :: "DBProduct list \<Rightarrow> DBProduct \<times> ProductVariant \<Rightarrow> bool" where
  "goes_upsell sourceProducts e =
     (isSameCategory sourceProducts (fst e) \<and> isHigherPrice (avgPrice sourceProducts) (snd e))"

text \<open>
  The (product id, variant id) pair of an output entry and of a candidate paired with
  a variant; two output lists are disjoint when no pair is in both.
\<close>

definition entry_key :: "ScoredProduct \<Rightarrow> int \<times> int" where
  "entry_key s = (sp_id s, sp_variant_id s)"

definition pair_key :: "DBProduct \<times> ProductVariant \<Rightarrow> int \<times> int" where
  "pair_key e = (product_id (fst e), variant_id (snd e))"

text \<open>An output entry by product id, variant id and price.\<close>

definition code_entry :: "ScoredProduct \<Rightarrow> int \<times> int \<times> real" where
  "code_entry s = (sp_id s, sp_variant_id s, sp_price s)"

definition lists_disjoint :: "Ranked \<Rightarrow> bool" where
  "lists_disjoint r = (set (map entry_key (upsell r)) \<inter> set (map entry_key (crosssell r)) = {})"

text \<open>
  Two environments, without any key and with the SDK switched on; an oracle whose
  every operation fails; and the request body for the T-shirt.
\<close>

definition ex_env_no_key :: Env where
  "ex_env_no_key = \<lparr>USE_NEUROLINK = None, RECOMMENDATIONS_API_KEY = None,
                     GRID_AI_API_KEY = None\<rparr>"

definition ex_env_neurolink :: Env where
  "ex_env_neurolink = \<lparr>USE_NEUROLINK = Some ''true'', RECOMMENDATIONS_API_KEY = None,
                        GRID_AI_API_KEY = None\<rparr>"

definition ex_oracle_down :: Oracle where
  "ex_oracle_down = \<lparr>neurolink_generate = Inl NeurolinkFailed,
                      fetch = (\<lambda>u k. Inl FetchFailed),
                      response_json_content = (\<lambda>b. Inl ResponseJsonError),
                      JSON_parse = (\<lambda>t. Inl JsonParseError)\<rparr>"

definition ex_body :: RecommendationsBody where
  "ex_body = \<lparr>body_shop_id = Some ''shop_1'', body_product_ids = Some [1001],
               body_recommendation_type = None\<rparr>"

text \<open>
  An oracle that answers with the same product id in both arrays, and one that
  answers with different ids. The answers are JSON texts; \<open>CHR 0x22\<close> is the double
  quote.
\<close>

definition ex_answer :: string where
  "ex_answer = ''{'' @ [CHR 0x22] @ ''upsell'' @ [CHR 0x22] @ '': [1003], ''
                @ [CHR 0x22] @ ''crosssell'' @ [CHR 0x22] @ '': [1003]}''"

definition ex_oracle_both :: Oracle where
  "ex_oracle_both = \<lparr>neurolink_generate = Inr ex_answer,
                      fetch = (\<lambda>u k. Inl FetchFailed),
                      response_json_content = (\<lambda>b. Inl ResponseJsonError),
                      JSON_parse = (\<lambda>t. if t = ex_answer
                                         then Inr \<lparr>upsell_ids = Some [1003],
                                                   crosssell_ids = Some [1003]\<rparr>
                                         else Inl JsonParseError)\<rparr>"

definition ex_answer_split :: string where
  "ex_answer_split = ''{'' @ [CHR 0x22] @ ''upsell'' @ [CHR 0x22] @ '': [1003], ''
                      @ [CHR 0x22] @ ''crosssell'' @ [CHR 0x22] @ '': [3001, 2001]}''"

definition ex_oracle_split :: Oracle where
  "ex_oracle_split = \<lparr>neurolink_generate = Inr ex_answer_split,
                       fetch = (\<lambda>u k. Inl FetchFailed),
                       response_json_content = (\<lambda>b. Inl ResponseJsonError),
                       JSON_parse = (\<lambda>t. if t = ex_answer_split
                                          then Inr \<lparr>upsell_ids = Some [1003],
                                                    crosssell_ids = Some [3001, 2001]\<rparr>
                                          else Inl JsonParseError)\<rparr>"

text \<open>A candidate whose two variants repeat one variant id at two prices.\<close>

definition ex_twin :: DBProduct where
  "ex_twin = ex_polo\<lparr>variants :=
     [\<lparr>variant_id = 10031, variant_title = ''Small'', variant_price = 40,
       inventory_quantity = 30\<rparr>,
      \<lparr>variant_id = 10031, variant_title = ''Small (outlet)'', variant_price = 25,
       inventory_quantity = 30\<rparr>]\<rparr>"

subsection \<open>Storage\<close>

text \<open>The example storage with every query against the tag graph rejected.\<close>

definition ex_storage_tag_fault :: Storage where
  "ex_storage_tag_fault = ex_storage\<lparr>query_fails_tag_graph := (\<lambda>tag. True)\<rparr>"

subsection \<open>Tracker\<close>

text \<open>The row the INSERT creates.\<close>

definition running_row :: "string \<Rightarrow> nat \<Rightarrow> ProcessTracker list \<Rightarrow> ProcessTracker" where
  "running_row shop now tbl =
     \<lparr>tracker_id = next_tracker_id tbl, tracker_shop_id = shop,
      tracker_status = ''running'', product_count = 0, started_at = now,
      completed_at = None, last_run = now\<rparr>"

text \<open>
  The facts about the new row \<open>r\<close> at the end of an invocation whose INSERT
  succeeded: it is the one row added, under a fresh id, for the shop; its status is
  one of the three; it is completed exactly when the invocation succeeded and exactly
  when \<open>completed_at\<close> is set; it is failed exactly when the invocation threw and the
  failure UPDATE succeeded; and its status after each statement was running \<open>k + 1\<close>
  times, followed by its final status if that is not running.
\<close>

definition row_facts ::
  "PrecomputeWorld \<Rightarrow> string \<Rightarrow> ProcessTracker list \<Rightarrow> error + unit \<Rightarrow> tracker_stmt list \<Rightarrow>
   ProcessTracker \<Rightarrow> nat \<Rightarrow> bool" where
  "row_facts w shopId tbl result stmts r k =
     (fold exec_stmt stmts tbl = tbl @ [r]
      \<and> tracker_id r = next_tracker_id tbl
      \<and> tracker_id r \<notin> tracker_id ` set tbl
      \<and> tracker_shop_id r = shopId
      \<and> tracker_status r \<in> {''running'', ''completed'', ''failed''}
      \<and> ((tracker_status r = ''completed'') = (result = Inr ()))
      \<and> ((completed_at r \<noteq> None) = (tracker_status r = ''completed''))
      \<and> ((mark_failed_ok w \<and> result \<noteq> Inr ()) = (tracker_status r = ''failed''))
      \<and> status_history (next_tracker_id tbl) stmts tbl
           = replicate (Suc k) ''running''
             @ (if tracker_status r = ''running'' then [] else [tracker_status r]))"

text \<open>
  Three invocations on a catalogue of four products: one where every step succeeds,
  one where the INSERT of the tracker row is rejected, and one where a step after the
  count update throws.
\<close>

definition ex_world_ok :: PrecomputeWorld where
  "ex_world_ok = \<lparr>connect_ok = True, insert_tracker_ok = True, load_catalog = Inr 4,
     update_count_ok = True, pipeline = Inr (), mark_completed_ok = True,
     mark_failed_ok = True, clock_start = 100, clock_end = 160\<rparr>"

definition ex_world_insert_rejected :: PrecomputeWorld where
  "ex_world_insert_rejected = ex_world_ok\<lparr>insert_tracker_ok := False\<rparr>"

definition ex_world_save_rejected :: PrecomputeWorld where
  "ex_world_save_rejected = ex_world_ok\<lparr>pipeline := Inl StorageError\<rparr>"

section \<open>Scoring engine: properties\<close>

lemma merchant_score_case_range:
  "merchant_score_case s \<in> {1.0, 0.7, 0.4, 0.1}"
  by (simp add: merchant_score_case_def)

lemma merchant_score_case_step:
  assumes "m = merchant_score_case s"
  shows "m \<in> {1.0, 0.7, 0.4, 0.1}
       \<and> (s > 50 \<longrightarrow> m = 1.0)
       \<and> (20 < s \<and> s \<le> 50 \<longrightarrow> m = 0.7)
       \<and> (0 < s \<and> s \<le> 20 \<longrightarrow> m = 0.4)
       \<and> (s \<le> 0 \<longrightarrow> m = 0.1)
       \<and> (s = 50 \<longrightarrow> m = 0.7)
       \<and> (s = 20 \<longrightarrow> m = 0.4)
       \<and> (s = 0 \<longrightarrow> m = 0.1)"
  unfolding assms by (simp add: merchant_score_case_def)

text \<open>What the two UPDATE statements together do to one stored row.\<close>

lemma computeProductScores_nth:
  assumes "i < length db"
  shows "computeProductScores random shopId db ! i =
           (if shop_id (db ! i) = shopId
            then (db ! i)\<lparr>merchant_score := merchant_score_case (stock (db ! i)),
                          purchase_score := random (product_id (db ! i)) * 0.5 + 0.5\<rparr>
            else db ! i)"
proof (cases "shop_id (db ! i) = shopId")
  case True
  with assms show ?thesis
    by (simp add: computeProductScores_def Let_def)
next
  case False
  with assms show ?thesis
    by (simp add: computeProductScores_def Let_def)
qed

lemma computeProductScores_length:
  "length (computeProductScores random shopId db) = length db"
  by (simp add: computeProductScores_def Let_def)

lemma computeProductScores_kept:
  assumes "i < length db"
  shows "product_id (computeProductScores random shopId db ! i) = product_id (db ! i)"
    and "shop_id (computeProductScores random shopId db ! i) = shop_id (db ! i)"
    and "stock (computeProductScores random shopId db ! i) = stock (db ! i)"
  by (simp_all add: computeProductScores_nth[OF assms])

lemma computeProductScores_scored:
  assumes "i < length db" and "shop_id (db ! i) = shopId"
  shows "merchant_score (computeProductScores random shopId db ! i)
           = merchant_score_case (stock (db ! i))"
  using assms(2) by (simp add: computeProductScores_nth[OF assms(1)])

lemma computeProductScores_other_shop:
  assumes "i < length db" and "shop_id (db ! i) \<noteq> shopId"
  shows "computeProductScores random shopId db ! i = db ! i"
  using assms(2) by (simp add: computeProductScores_nth[OF assms(1)])

lemma computeProductScores_row:
  assumes "q \<in> set (computeProductScores random shopId db)" and "shop_id q = shopId"
  shows "merchant_score q = merchant_score_case (stock q)"
proof -
  from assms(1) obtain i where i: "i < length (computeProductScores random shopId db)"
    and q: "q = computeProductScores random shopId db ! i"
    by (auto simp: in_set_conv_nth)
  from i have i': "i < length db" by (simp add: computeProductScores_length)
  from assms(2) q have "shop_id (db ! i) = shopId"
    by (simp add: computeProductScores_kept[OF i'])
  then show ?thesis
    unfolding q
    by (simp add: computeProductScores_scored[OF i'] computeProductScores_kept[OF i'])
qed

text \<open>
  C4. Score computation keeps every stored row in its place with its id, shop and
  stock, and leaves the rows of other shops as they were. Every product of the shop
  gets a merchant score that is the step function of its stock alone: 1.0 above 50,
  0.7 above 20 up to 50, 0.4 above 0 up to 20, and 0.1 at 0 or below; so the score is
  one of the four values, and the boundary stocks 50, 20 and 0 give 0.7, 0.4 and 0.1.
  The same holds of every row of the shop in the table after the computation.
\<close>

theorem C4_merchant_score_step:
  "length (computeProductScores random shopId db) = length db
   \<and> (\<forall>i < length db.
         product_id (computeProductScores random shopId db ! i) = product_id (db ! i)
       \<and> shop_id (computeProductScores random shopId db ! i) = shop_id (db ! i)
       \<and> stock (computeProductScores random shopId db ! i) = stock (db ! i)
       \<and> (shop_id (db ! i) \<noteq> shopId \<longrightarrow>
            computeProductScores random shopId db ! i = db ! i)
       \<and> (shop_id (db ! i) = shopId \<longrightarrow>
            merchant_score (computeProductScores random shopId db ! i) \<in> {1.0, 0.7, 0.4, 0.1}
          \<and> (stock (db ! i) > 50 \<longrightarrow>
                merchant_score (computeProductScores random shopId db ! i) = 1.0)
          \<and> (20 < stock (db ! i) \<and> stock (db ! i) \<le> 50 \<longrightarrow>
                merchant_score (computeProductScores random shopId db ! i) = 0.7)
          \<and> (0 < stock (db ! i) \<and> stock (db ! i) \<le> 20 \<longrightarrow>
                merchant_score (computeProductScores random shopId db ! i) = 0.4)
          \<and> (stock (db ! i) \<le> 0 \<longrightarrow>
                merchant_score (computeProductScores random shopId db ! i) = 0.1)
          \<and> (stock (db ! i) = 50 \<longrightarrow>
                merchant_score (computeProductScores random shopId db ! i) = 0.7)
          \<and> (stock (db ! i) = 20 \<longrightarrow>
                merchant_score (computeProductScores random shopId db ! i) = 0.4)
          \<and> (stock (db ! i) = 0 \<longrightarrow>
                merchant_score (computeProductScores random shopId db ! i) = 0.1)))
   \<and> (\<forall>q \<in> set (computeProductScores random shopId db). shop_id q = shopId \<longrightarrow>
         merchant_score q \<in> {1.0, 0.7, 0.4, 0.1}
       \<and> (stock q > 50 \<longrightarrow> merchant_score q = 1.0)
       \<and> (20 < stock q \<and> stock q \<le> 50 \<longrightarrow> merchant_score q = 0.7)
       \<and> (0 < stock q \<and> stock q \<le> 20 \<longrightarrow> merchant_score q = 0.4)
       \<and> (stock q \<le> 0 \<longrightarrow> merchant_score q = 0.1)
       \<and> (stock q = 50 \<longrightarrow> merchant_score q = 0.7)
       \<and> (stock q = 20 \<longrightarrow> merchant_score q = 0.4)
       \<and> (stock q = 0 \<longrightarrow> merchant_score q = 0.1))"
proof -
  have A: "length (computeProductScores random shopId db) = length db"
    by (rule computeProductScores_length)
  have B: "\<forall>i < length db.
         product_id (computeProductScores random shopId db ! i) = product_id (db ! i)
       \<and> shop_id (computeProductScores random shopId db ! i) = shop_id (db ! i)
       \<and> stock (computeProductScores random shopId db ! i) = stock (db ! i)
       \<and> (shop_id (db ! i) \<noteq> shopId \<longrightarrow>
            computeProductScores random shopId db ! i = db ! i)
       \<and> (shop_id (db ! i) = shopId \<longrightarrow>
            merchant_score (computeProductScores random shopId db ! i) \<in> {1.0, 0.7, 0.4, 0.1}
          \<and> (stock (db ! i) > 50 \<longrightarrow>
                merchant_score (computeProductScores random shopId db ! i) = 1.0)
          \<and> (20 < stock (db ! i) \<and> stock (db ! i) \<le> 50 \<longrightarrow>
                merchant_score (computeProductScores random shopId db ! i) = 0.7)
          \<and> (0 < stock (db ! i) \<and> stock (db ! i) \<le> 20 \<longrightarrow>
                merchant_score (computeProductScores random shopId db ! i) = 0.4)
          \<and> (stock (db ! i) \<le> 0 \<longrightarrow>
                merchant_score (computeProductScores random shopId db ! i) = 0.1)
          \<and> (stock (db ! i) = 50 \<longrightarrow>
                merchant_score (computeProductScores random shopId db ! i) = 0.7)
          \<and> (stock (db ! i) = 20 \<longrightarrow>
                merchant_score (computeProductScores random shopId db ! i) = 0.4)
          \<and> (stock (db ! i) = 0 \<longrightarrow>
                merchant_score (computeProductScores random shopId db ! i) = 0.1))"
  proof (intro allI impI)
    fix i assume i: "i < length db"
    note k = computeProductScores_kept[OF i, of random shopId]
    have o: "shop_id (db ! i) \<noteq> shopId \<longrightarrow>
            computeProductScores random shopId db ! i = db ! i"
      by (intro impI) (rule computeProductScores_other_shop[OF i])
    have f: "shop_id (db ! i) = shopId \<longrightarrow>
            merchant_score (computeProductScores random shopId db ! i) \<in> {1.0, 0.7, 0.4, 0.1}
          \<and> (stock (db ! i) > 50 \<longrightarrow>
                merchant_score (computeProductScores random shopId db ! i) = 1.0)
          \<and> (20 < stock (db ! i) \<and> stock (db ! i) \<le> 50 \<longrightarrow>
                merchant_score (computeProductScores random shopId db ! i) = 0.7)
          \<and> (0 < stock (db ! i) \<and> stock (db ! i) \<le> 20 \<longrightarrow>
                merchant_score (computeProductScores random shopId db ! i) = 0.4)
          \<and> (stock (db ! i) \<le> 0 \<longrightarrow>
                merchant_score (computeProductScores random shopId db ! i) = 0.1)
          \<and> (stock (db ! i) = 50 \<longrightarrow>
                merchant_score (computeProductScores random shopId db ! i) = 0.7)
          \<and> (stock (db ! i) = 20 \<longrightarrow>
                merchant_score (computeProductScores random shopId db ! i) = 0.4)
          \<and> (stock (db ! i) = 0 \<longrightarrow>
                merchant_score (computeProductScores random shopId db ! i) = 0.1)"
      by (intro impI) (rule merchant_score_case_step[OF computeProductScores_scored[OF i]])
    show "product_id (computeProductScores random shopId db ! i) = product_id (db ! i)
       \<and> shop_id (computeProductScores random shopId db ! i) = shop_id (db ! i)
       \<and> stock (computeProductScores random shopId db ! i) = stock (db ! i)
       \<and> (shop_id (db ! i) \<noteq> shopId \<longrightarrow>
            computeProductScores random shopId db ! i = db ! i)
       \<and> (shop_id (db ! i) = shopId \<longrightarrow>
            merchant_score (computeProductScores random shopId db ! i) \<in> {1.0, 0.7, 0.4, 0.1}
          \<and> (stock (db ! i) > 50 \<longrightarrow>
                merchant_score (computeProductScores random shopId db ! i) = 1.0)
          \<and> (20 < stock (db ! i) \<and> stock (db ! i) \<le> 50 \<longrightarrow>
                merchant_score (computeProductScores random shopId db ! i) = 0.7)
          \<and> (0 < stock (db ! i) \<and> stock (db ! i) \<le> 20 \<longrightarrow>
                merchant_score (computeProductScores random shopId db ! i) = 0.4)
          \<and> (stock (db ! i) \<le> 0 \<longrightarrow>
                merchant_score (computeProductScores random shopId db ! i) = 0.1)
          \<and> (stock (db ! i) = 50 \<longrightarrow>
                merchant_score (computeProductScores random shopId db ! i) = 0.7)
          \<and> (stock (db ! i) = 20 \<longrightarrow>
                merchant_score (computeProductScores random shopId db ! i) = 0.4)
          \<and> (stock (db ! i) = 0 \<longrightarrow>
                merchant_score (computeProductScores random shopId db ! i) = 0.1))"
      by (rule conjI[OF k(1) conjI[OF k(2) conjI[OF k(3) conjI[OF o f]]]])
  qed
  have C: "\<forall>q \<in> set (computeProductScores random shopId db). shop_id q = shopId \<longrightarrow>
         merchant_score q \<in> {1.0, 0.7, 0.4, 0.1}
       \<and> (stock q > 50 \<longrightarrow> merchant_score q = 1.0)
       \<and> (20 < stock q \<and> stock q \<le> 50 \<longrightarrow> merchant_score q = 0.7)
       \<and> (0 < stock q \<and> stock q \<le> 20 \<longrightarrow> merchant_score q = 0.4)
       \<and> (stock q \<le> 0 \<longrightarrow> merchant_score q = 0.1)
       \<and> (stock q = 50 \<longrightarrow> merchant_score q = 0.7)
       \<and> (stock q = 20 \<longrightarrow> merchant_score q = 0.4)
       \<and> (stock q = 0 \<longrightarrow> merchant_score q = 0.1)"
    by (intro ballI impI) (rule merchant_score_case_step[OF computeProductScores_row])
  show ?thesis
    by (rule conjI[OF A conjI[OF B C]])
qed

lemmas ex_defs =
  ex_tshirt_def ex_polo_def ex_jeans_def ex_sneakers_def ex_draft_def ex_sold_out_def
  ex_foreign_def ex_tank_def

theorem C4_merchant_score_step_witness:
  "(0::nat) < length [ex_tshirt\<lparr>merchant_score := 0, purchase_score := 0\<rparr>, ex_foreign]
   \<and> shop_id ([ex_tshirt\<lparr>merchant_score := 0, purchase_score := 0\<rparr>, ex_foreign] ! 0) = ''shop_1''
   \<and> stock ([ex_tshirt\<lparr>merchant_score := 0, purchase_score := 0\<rparr>, ex_foreign] ! 0) = 50
   \<and> product_id (computeProductScores (\<lambda>i. 0) ''shop_1''
        [ex_tshirt\<lparr>merchant_score := 0, purchase_score := 0\<rparr>, ex_foreign] ! 0) = 1001
   \<and> merchant_score (computeProductScores (\<lambda>i. 0) ''shop_1''
        [ex_tshirt\<lparr>merchant_score := 0, purchase_score := 0\<rparr>, ex_foreign] ! 0) = 0.7
   \<and> shop_id ([ex_tshirt\<lparr>merchant_score := 0, purchase_score := 0\<rparr>, ex_foreign] ! 1) \<noteq> ''shop_1''
   \<and> computeProductScores (\<lambda>i. 0) ''shop_1''
        [ex_tshirt\<lparr>merchant_score := 0, purchase_score := 0\<rparr>, ex_foreign] ! 1 = ex_foreign
   \<and> ex_tshirt \<in> set (computeProductScores (\<lambda>i. 0) ''shop_1''
                      [ex_tshirt\<lparr>merchant_score := 0, purchase_score := 0\<rparr>, ex_foreign])
   \<and> shop_id ex_tshirt = ''shop_1''
   \<and> stock ex_tshirt = 50
   \<and> merchant_score ex_tshirt = 0.7"
proof -
  let ?db = "[ex_tshirt\<lparr>merchant_score := 0, purchase_score := 0\<rparr>, ex_foreign]"
  note t = C4_merchant_score_step[of "\<lambda>i. 0" "''shop_1''" ?db]
  have l0: "(0::nat) < length ?db" and l1: "(1::nat) < length ?db"
    by simp_all
  have s0: "shop_id (?db ! 0) = ''shop_1''" and k0: "stock (?db ! 0) = 50"
    and p0: "product_id (?db ! 0) = 1001"
    by (simp_all add: ex_tshirt_def)
  have s1: "shop_id (?db ! 1) \<noteq> ''shop_1''" and d1: "?db ! 1 = ex_foreign"
    by (simp_all add: ex_foreign_def)
  note r0 = t[THEN conjunct2, THEN conjunct1, rule_format, OF l0]
  note r1 = t[THEN conjunct2, THEN conjunct1, rule_format, OF l1]
  from r0 p0 have a: "product_id (computeProductScores (\<lambda>i. 0) ''shop_1'' ?db ! 0) = 1001"
    by simp
  from r0 s0 k0 have b: "merchant_score (computeProductScores (\<lambda>i. 0) ''shop_1'' ?db ! 0) = 0.7"
    by simp
  from r1 s1 d1 have c: "computeProductScores (\<lambda>i. 0) ''shop_1'' ?db ! 1 = ex_foreign"
    by simp
  have m: "ex_tshirt \<in> set (computeProductScores (\<lambda>i. 0) ''shop_1'' ?db)"
    by (simp add: computeProductScores_def merchant_score_case_def ex_defs)
  have s: "shop_id ex_tshirt = ''shop_1''" and k: "stock ex_tshirt = 50"
    by (simp_all add: ex_tshirt_def)
  from t[THEN conjunct2, THEN conjunct2, rule_format, OF m s] k
  have e: "merchant_score ex_tshirt = 0.7" by simp
  from l0 s0 k0 a b s1 c m s k e show ?thesis by (intro conjI)
qed

section \<open>Candidate selection: properties\<close>

lemma candidate_rows_subset:
  "set (candidate_rows db shopId tags_in excludeIds limit)
     \<subseteq> {p \<in> set db. candidate_where shopId excludeIds tags_in p}"
proof -
  have "set (candidate_rows db shopId tags_in excludeIds limit)
          \<subseteq> set (sort_key (\<lambda>p. - composite_score p)
                     (filter (candidate_where shopId excludeIds tags_in) db))"
    unfolding candidate_rows_def by (rule set_take_subset)
  then show ?thesis by auto
qed

lemma candidate_rows_length:
  "length (candidate_rows db shopId tags_in excludeIds limit) \<le> limit"
  unfolding candidate_rows_def by simp

lemma candidate_rows_sorted:
  "sorted_wrt (\<lambda>p q. composite_score p \<ge> composite_score q)
     (candidate_rows db shopId tags_in excludeIds limit)"
proof -
  let ?xs = "sort_key (\<lambda>p. - composite_score p)
               (filter (candidate_where shopId excludeIds tags_in) db)"
  have "sorted (map (\<lambda>p. - composite_score p) ?xs)"
    by (rule sorted_sort_key)
  then have "sorted (map (\<lambda>p. - composite_score p) (take limit ?xs))"
    by (simp add: take_map[symmetric] sorted_wrt_take)
  then show ?thesis
    unfolding candidate_rows_def by (simp add: sorted_map)
qed

lemma candidate_rows_no_tags:
  "candidate_rows db shopId [] excludeIds limit = []"
  by (simp add: candidate_rows_def candidate_where_def split: option.splits)

lemma ex_candidate_rows:
  "candidate_rows ex_products ''shop_1'' [''jeans'', ''sneakers'', ''polo''] [1001] 100
     = [ex_polo, ex_sneakers, ex_jeans]"
  by (simp add: candidate_rows_def candidate_where_def composite_score_def ex_products_def ex_defs)

text \<open>
  C1. Whatever the shop id, the excluded (source) ids, the related tags and the limit,
  the rows the candidate query returns are products of that shop with status active
  and positive stock whose primary tag is one of the related tags; none has an
  excluded id; there are at most \<open>limit\<close> rows; and they are in non-increasing order of
  \<open>merchant_score * 0.6 + purchase_score * 0.4\<close>.
\<close>

theorem C1_candidate_selection:
  assumes "getCandidateProductsByTags st shopId tags_in excludeIds limit = Inr rows"
  shows "(\<forall>p \<in> set rows.
            p \<in> set (products_table st)
          \<and> shop_id p = shopId
          \<and> status p = ''active''
          \<and> stock p > 0
          \<and> (\<exists>t. tags p = Some t \<and> t \<in> set tags_in)
          \<and> product_id p \<notin> set excludeIds)
       \<and> length rows \<le> limit
       \<and> sorted_wrt (\<lambda>p q. merchant_score p * 0.6 + purchase_score p * 0.4
                          \<ge> merchant_score q * 0.6 + purchase_score q * 0.4) rows"
proof -
  from assms have rows: "rows = candidate_rows (products_table st) shopId tags_in excludeIds limit"
    by (simp add: getCandidateProductsByTags_def split: if_splits)
  have a: "\<forall>p \<in> set rows.
            p \<in> set (products_table st)
          \<and> shop_id p = shopId
          \<and> status p = ''active''
          \<and> stock p > 0
          \<and> (\<exists>t. tags p = Some t \<and> t \<in> set tags_in)
          \<and> product_id p \<notin> set excludeIds"
  proof
    fix p assume "p \<in> set rows"
    with candidate_rows_subset[of "products_table st" shopId tags_in excludeIds limit] rows
    have "p \<in> set (products_table st)" and "candidate_where shopId excludeIds tags_in p"
      by auto
    then show "p \<in> set (products_table st)
          \<and> shop_id p = shopId
          \<and> status p = ''active''
          \<and> stock p > 0
          \<and> (\<exists>t. tags p = Some t \<and> t \<in> set tags_in)
          \<and> product_id p \<notin> set excludeIds"
      by (simp add: candidate_where_def split: option.splits)
  qed
  have b: "length rows \<le> limit"
    unfolding rows by (rule candidate_rows_length)
  have c: "sorted_wrt (\<lambda>p q. merchant_score p * 0.6 + purchase_score p * 0.4
                          \<ge> merchant_score q * 0.6 + purchase_score q * 0.4) rows"
    using candidate_rows_sorted[of "products_table st" shopId tags_in excludeIds limit]
    unfolding rows composite_score_def .
  from a b c show ?thesis by blast
qed

theorem C1_candidate_selection_witness:
  "getCandidateProductsByTags ex_storage ''shop_1'' [''jeans'', ''sneakers'', ''polo''] [1001] 2
     = Inr [ex_polo, ex_sneakers]
   \<and> ex_polo \<in> set (products_table ex_storage)
   \<and> shop_id ex_polo = ''shop_1''
   \<and> status ex_polo = ''active''
   \<and> stock ex_polo > 0
   \<and> tags ex_polo = Some ''polo''
   \<and> product_id ex_polo \<notin> set [1001]
   \<and> length [ex_polo, ex_sneakers] \<le> 2
   \<and> merchant_score ex_polo * 0.6 + purchase_score ex_polo * 0.4
       \<ge> merchant_score ex_sneakers * 0.6 + purchase_score ex_sneakers * 0.4"
proof -
  have q: "getCandidateProductsByTags ex_storage ''shop_1'' [''jeans'', ''sneakers'', ''polo''] [1001] 2
             = Inr [ex_polo, ex_sneakers]"
    by (simp add: getCandidateProductsByTags_def ex_storage_def candidate_rows_def
                  candidate_where_def composite_score_def ex_products_def ex_defs)
  note t = C1_candidate_selection[OF q]
  from t have "ex_polo \<in> set (products_table ex_storage)
          \<and> shop_id ex_polo = ''shop_1''
          \<and> status ex_polo = ''active''
          \<and> stock ex_polo > 0
          \<and> (\<exists>t. tags ex_polo = Some t \<and> t \<in> set [''jeans'', ''sneakers'', ''polo''])
          \<and> product_id ex_polo \<notin> set [1001]"
    by simp
  moreover have "tags ex_polo = Some ''polo''" by (simp add: ex_polo_def)
  moreover from t have "length [ex_polo, ex_sneakers] \<le> 2" by blast
  moreover from t have "merchant_score ex_polo * 0.6 + purchase_score ex_polo * 0.4
       \<ge> merchant_score ex_sneakers * 0.6 + purchase_score ex_sneakers * 0.4"
    by simp
  ultimately show ?thesis using q by blast
qed

section \<open>Ranking fallback: properties\<close>

lemma fallback_variant_step:
  "fallback_variant sourceProducts c (avgPrice sourceProducts) v acc =
     (if goes_upsell sourceProducts (c, v)
      then (fst acc @ [fallback_scored c v], snd acc)
      else (fst acc, snd acc @ [fallback_scored c v]))"
  by (simp add: fallback_variant_def goes_upsell_def Let_def)

lemma fold_fallback_variant:
  "fold (fallback_variant sourceProducts c (avgPrice sourceProducts)) vs acc =
     (fst acc @ map (fallback_scored c) (filter (\<lambda>v. goes_upsell sourceProducts (c, v)) vs),
      snd acc @ map (fallback_scored c) (filter (\<lambda>v. \<not> goes_upsell sourceProducts (c, v)) vs))"
proof (induction vs arbitrary: acc)
  case Nil
  show ?case by simp
next
  case (Cons v vs)
  let ?f = "fallback_variant sourceProducts c (avgPrice sourceProducts)"
  have "fold ?f (v # vs) acc = fold ?f vs (?f v acc)"
    by simp
  also have "\<dots> =
     (fst (?f v acc) @ map (fallback_scored c) (filter (\<lambda>v. goes_upsell sourceProducts (c, v)) vs),
      snd (?f v acc) @ map (fallback_scored c) (filter (\<lambda>v. \<not> goes_upsell sourceProducts (c, v)) vs))"
    by (rule Cons.IH)
  also have "\<dots> =
     (fst acc @ map (fallback_scored c)
                  (filter (\<lambda>v. goes_upsell sourceProducts (c, v)) (v # vs)),
      snd acc @ map (fallback_scored c)
                  (filter (\<lambda>v. \<not> goes_upsell sourceProducts (c, v)) (v # vs)))"
    by (simp add: fallback_variant_step)
  finally show ?case .
qed

lemma expand_variants_Cons:
  "expand_variants (c # cs) = map (\<lambda>v. (c, v)) (variants c) @ expand_variants cs"
  by (simp add: expand_variants_def)

lemma fallback_candidate_step:
  "fallback_candidate sourceProducts c acc =
     (fst acc @ map (\<lambda>e. fallback_scored (fst e) (snd e))
                  (filter (goes_upsell sourceProducts) (map (\<lambda>v. (c, v)) (variants c))),
      snd acc @ map (\<lambda>e. fallback_scored (fst e) (snd e))
                  (filter (\<lambda>e. \<not> goes_upsell sourceProducts e) (map (\<lambda>v. (c, v)) (variants c))))"
  by (simp add: fallback_candidate_def Let_def fold_fallback_variant filter_map comp_def)

lemma fold_fallback_candidate:
  "fold (fallback_candidate sourceProducts) cs acc =
     (fst acc @ map (\<lambda>e. fallback_scored (fst e) (snd e))
                  (filter (goes_upsell sourceProducts) (expand_variants cs)),
      snd acc @ map (\<lambda>e. fallback_scored (fst e) (snd e))
                  (filter (\<lambda>e. \<not> goes_upsell sourceProducts e) (expand_variants cs)))"
proof (induction cs arbitrary: acc)
  case Nil
  show ?case by (simp add: expand_variants_def)
next
  case (Cons c cs)
  let ?f = "fallback_candidate sourceProducts"
  have "fold ?f (c # cs) acc = fold ?f cs (?f c acc)"
    by simp
  also have "\<dots> =
     (fst (?f c acc) @ map (\<lambda>e. fallback_scored (fst e) (snd e))
                  (filter (goes_upsell sourceProducts) (expand_variants cs)),
      snd (?f c acc) @ map (\<lambda>e. fallback_scored (fst e) (snd e))
                  (filter (\<lambda>e. \<not> goes_upsell sourceProducts e) (expand_variants cs)))"
    by (rule Cons.IH)
  also have "\<dots> =
     (fst acc @ map (\<lambda>e. fallback_scored (fst e) (snd e))
                  (filter (goes_upsell sourceProducts) (expand_variants (c # cs))),
      snd acc @ map (\<lambda>e. fallback_scored (fst e) (snd e))
                  (filter (\<lambda>e. \<not> goes_upsell sourceProducts e) (expand_variants (c # cs))))"
    by (simp add: fallback_candidate_step expand_variants_Cons)
  finally show ?case .
qed

text \<open>The two output lists of the fallback in closed form.\<close>

lemma fallback_closed_form:
  "fallback sourceProducts candidates =
     \<lparr>upsell = take 10 (map (\<lambda>e. fallback_scored (fst e) (snd e))
                (filter (goes_upsell sourceProducts) (expand_variants (take 20 candidates)))),
      crosssell = take 10 (map (\<lambda>e. fallback_scored (fst e) (snd e))
                (filter (\<lambda>e. \<not> goes_upsell sourceProducts e)
                   (expand_variants (take 20 candidates))))\<rparr>"
  by (simp add: fallback_def Let_def fold_fallback_candidate config_limits_def)

section \<open>Ranking engine: failures of the oracle chain\<close>

lemma findNearest_on_error:
  "try_llm env orc candidates = Inl e \<Longrightarrow>
   findNearestProductsWithLLM env orc sourceProducts candidates rt
     = fallback sourceProducts candidates"
  by (simp add: findNearestProductsWithLLM_def)

lemma try_llm_config_error:
  "getRecommendationsAPIConfig env = Inl e \<Longrightarrow> try_llm env orc candidates = Inl e"
  by (simp add: try_llm_def)

lemma try_llm_call_error:
  "getRecommendationsAPIConfig env = Inr cfg \<Longrightarrow> llm_call orc cfg = Inl e \<Longrightarrow>
   try_llm env orc candidates = Inl e"
  by (simp add: try_llm_def)

lemma try_llm_parse_error:
  "getRecommendationsAPIConfig env = Inr cfg \<Longrightarrow> llm_call orc cfg = Inr llmResponse \<Longrightarrow>
   parse_llm_response orc llmResponse = Inl e \<Longrightarrow>
   try_llm env orc candidates = Inl e"
  by (simp add: try_llm_def)

lemma llm_call_fetch_error:
  "\<not> useNeurolink cfg \<Longrightarrow> fetch orc (url cfg) (apiKey cfg) = Inl e \<Longrightarrow>
   llm_call orc cfg = Inl e"
  by (simp add: llm_call_def)

lemma llm_call_neurolink_error:
  "useNeurolink cfg \<Longrightarrow> neurolink_generate orc = Inl e \<Longrightarrow> llm_call orc cfg = Inl e"
  by (simp add: llm_call_def)

lemma llm_call_status_error:
  "\<not> useNeurolink cfg \<Longrightarrow> fetch orc (url cfg) (apiKey cfg) = Inr response \<Longrightarrow>
   \<not> response_ok response \<Longrightarrow>
   llm_call orc cfg = Inl (ApiError (response_status response) (response_body response))"
  by (simp add: llm_call_def)

lemma llm_call_body_error:
  "\<not> useNeurolink cfg \<Longrightarrow> fetch orc (url cfg) (apiKey cfg) = Inr response \<Longrightarrow>
   response_ok response \<Longrightarrow> response_json_content orc (response_body response) = Inl e \<Longrightarrow>
   llm_call orc cfg = Inl e"
  by (simp add: llm_call_def)

lemma parse_no_json:
  "match_braces (trim (strip_fence_end (strip_fence_start llmResponse))) = None \<Longrightarrow>
   parse_llm_response orc llmResponse = Inl NoJsonFound"
  by (simp add: parse_llm_response_def)

lemma parse_invalid_json:
  "match_braces (trim (strip_fence_end (strip_fence_start llmResponse))) = Some jsonMatch \<Longrightarrow>
   JSON_parse orc jsonMatch = Inl e \<Longrightarrow>
   parse_llm_response orc llmResponse = Inl e"
  by (simp add: parse_llm_response_def)

lemma getRelatedTags_error:
  "getRelatedTags st tags_in maxTags = Inl e \<Longrightarrow> e = StorageError"
  by (simp add: getRelatedTags_def split: if_splits sum.splits)

lemma getCandidateProductsByTags_error:
  "getCandidateProductsByTags st shopId tags_in excludeIds limit = Inl e \<Longrightarrow> e = StorageError"
  by (simp add: getCandidateProductsByTags_def split: if_splits)

lemma getProductsByIds_error:
  "getProductsByIds st productIds = Inl e \<Longrightarrow> e = StorageError"
  by (simp add: getProductsByIds_def split: if_splits)

lemma recommend_from_sources_error:
  assumes "recommend_from_sources env orc st shopId productIds rt sourceProducts = Inl e"
  shows "e = StorageError"
proof (cases "getRelatedTags st (collect_source_tags sourceProducts) 50")
  case (Inl e1)
  with assms have "e = e1" by (simp add: recommend_from_sources_def)
  with Inl show ?thesis by (simp add: getRelatedTags_error)
next
  case (Inr relatedTags)
  show ?thesis
  proof (cases "getCandidateProductsByTags st shopId relatedTags productIds 100")
    case (Inl e2)
    with assms Inr have "e = e2" by (simp add: recommend_from_sources_def)
    with Inl show ?thesis by (simp add: getCandidateProductsByTags_error)
  next
    case c: (Inr candidateProducts)
    with assms Inr show ?thesis
      by (simp add: recommend_from_sources_def split: if_splits)
  qed
qed

lemma getRecommendations_error:
  assumes "getRecommendations env orc st shopId productIds rt = Inl e"
  shows "e = StorageError \<or> e = NoProductsFound"
proof (cases "connect_fails_getRecommendations st")
  case True
  with assms show ?thesis by (simp add: getRecommendations_def)
next
  case False
  show ?thesis
  proof (cases "getProductsByIds st productIds")
    case (Inl e1)
    with assms False have "e = e1" by (simp add: getRecommendations_def)
    with Inl show ?thesis by (simp add: getProductsByIds_error)
  next
    case (Inr sourceProducts)
    show ?thesis
    proof (cases "sourceProducts = []")
      case True
      with assms False Inr show ?thesis by (simp add: getRecommendations_def)
    next
      case ne: False
      with assms False Inr
      have "recommend_from_sources env orc st shopId productIds rt sourceProducts = Inl e"
        by (simp add: getRecommendations_def)
      then show ?thesis by (simp add: recommend_from_sources_error)
    qed
  qed
qed

lemma post_api_recommendations_500:
  assumes "post_api_recommendations env orc st body = Json500 e"
  shows "e = StorageError \<or> e = NoProductsFound"
proof -
  from assms obtain shop product_ids rt where
    "getRecommendations env orc st shop product_ids rt = Inl e"
    by (auto simp: post_api_recommendations_def split: option.splits if_splits sum.splits)
  then show ?thesis by (rule getRecommendations_error)
qed

text \<open>A request that reaches the ranking step with a failing oracle chain is answered with the fallback.\<close>

lemma post_api_recommendations_fallback:
  assumes "body_shop_id body = Some shop" and "shop \<noteq> []"
    and "body_product_ids body = Some product_ids" and "product_ids \<noteq> []"
    and "\<not> connect_fails_getRecommendations st"
    and "getProductsByIds st product_ids = Inr sourceProducts" and "sourceProducts \<noteq> []"
    and "getRelatedTags st (collect_source_tags sourceProducts) 50 = Inr relatedTags"
    and "getCandidateProductsByTags st shop relatedTags product_ids 100 = Inr candidates"
    and "candidates \<noteq> []"
    and "try_llm env orc candidates = Inl e"
  shows "post_api_recommendations env orc st body = Json200 (fallback sourceProducts candidates)"
  using assms
  by (simp add: post_api_recommendations_def getRecommendations_def recommend_from_sources_def
                findNearest_on_error)

lemma ex_getProductsByIds:
  "getProductsByIds ex_storage [1001] = Inr [ex_tshirt]"
  by (simp add: getProductsByIds_def ex_storage_def ex_products_def ex_defs)

lemma ex_collect_source_tags:
  "collect_source_tags [ex_tshirt] = [''t-shirt'']"
  by (simp add: collect_source_tags_def Set_add_def ex_tshirt_def)

lemma ex_getRelatedTags:
  "getRelatedTags ex_storage [''t-shirt''] 50 = Inr [''jeans'', ''sneakers'', ''polo'']"
  by (simp add: getRelatedTags_def ex_storage_def Set_add_def)

lemma ex_getCandidateProductsByTags:
  "getCandidateProductsByTags ex_storage ''shop_1'' [''jeans'', ''sneakers'', ''polo''] [1001] 100
     = Inr [ex_polo, ex_sneakers, ex_jeans]"
  by (simp add: getCandidateProductsByTags_def ex_storage_def ex_candidate_rows)

lemma ex_no_key: "getRecommendationsAPIConfig ex_env_no_key = Inl NoApiKeyFound"
  by (simp add: getRecommendationsAPIConfig_def grid_config_def shouldUseNeurolink_def
                ex_env_no_key_def)

lemma ex_neurolink_config:
  "getRecommendationsAPIConfig ex_env_neurolink = Inr \<lparr>url = [], apiKey = [], useNeurolink = True\<rparr>"
  by (simp add: getRecommendationsAPIConfig_def shouldUseNeurolink_def toLowerCase_def
                toLowerCase_char_def ex_env_neurolink_def)

text \<open>
  C3. Whatever fails in the oracle invocation or in the parsing of its answer, the
  ranking engine returns the fallback result: a missing API key configuration, a
  rejected \<open>fetch\<close> or SDK call, a status outside 200 to 299, a response body that
  does not decode, an answer with no brace-delimited block, and a block that
  \<open>JSON.parse\<close> rejects. The route answers 500 only with a storage error or the
  no-products error, and a request that reaches the ranking step with a failing oracle
  chain is answered 200 with the fallback lists.
\<close>

theorem C3_oracle_errors_fall_back:
  "(getRecommendationsAPIConfig env = Inl e \<longrightarrow>
      findNearestProductsWithLLM env orc sourceProducts candidates rt
        = fallback sourceProducts candidates)
   \<and> (getRecommendationsAPIConfig env = Inr cfg \<and> \<not> useNeurolink cfg
        \<and> fetch orc (url cfg) (apiKey cfg) = Inl e \<longrightarrow>
      findNearestProductsWithLLM env orc sourceProducts candidates rt
        = fallback sourceProducts candidates)
   \<and> (getRecommendationsAPIConfig env = Inr cfg \<and> useNeurolink cfg
        \<and> neurolink_generate orc = Inl e \<longrightarrow>
      findNearestProductsWithLLM env orc sourceProducts candidates rt
        = fallback sourceProducts candidates)
   \<and> (getRecommendationsAPIConfig env = Inr cfg \<and> \<not> useNeurolink cfg
        \<and> fetch orc (url cfg) (apiKey cfg) = Inr response \<and> \<not> response_ok response \<longrightarrow>
      findNearestProductsWithLLM env orc sourceProducts candidates rt
        = fallback sourceProducts candidates)
   \<and> (getRecommendationsAPIConfig env = Inr cfg \<and> \<not> useNeurolink cfg
        \<and> fetch orc (url cfg) (apiKey cfg) = Inr response \<and> response_ok response
        \<and> response_json_content orc (response_body response) = Inl e \<longrightarrow>
      findNearestProductsWithLLM env orc sourceProducts candidates rt
        = fallback sourceProducts candidates)
   \<and> (getRecommendationsAPIConfig env = Inr cfg \<and> llm_call orc cfg = Inr llmResponse
        \<and> match_braces (trim (strip_fence_end (strip_fence_start llmResponse))) = None \<longrightarrow>
      findNearestProductsWithLLM env orc sourceProducts candidates rt
        = fallback sourceProducts candidates)
   \<and> (getRecommendationsAPIConfig env = Inr cfg \<and> llm_call orc cfg = Inr llmResponse
        \<and> match_braces (trim (strip_fence_end (strip_fence_start llmResponse))) = Some jsonMatch
        \<and> JSON_parse orc jsonMatch = Inl e \<longrightarrow>
      findNearestProductsWithLLM env orc sourceProducts candidates rt
        = fallback sourceProducts candidates)
   \<and> (post_api_recommendations env orc st body = Json500 e' \<longrightarrow>
        e' = StorageError \<or> e' = NoProductsFound)
   \<and> (body_shop_id body = Some shop \<and> shop \<noteq> []
        \<and> body_product_ids body = Some product_ids \<and> product_ids \<noteq> []
        \<and> \<not> connect_fails_getRecommendations st
        \<and> getProductsByIds st product_ids = Inr sourceProducts \<and> sourceProducts \<noteq> []
        \<and> getRelatedTags st (collect_source_tags sourceProducts) 50 = Inr relatedTags
        \<and> getCandidateProductsByTags st shop relatedTags product_ids 100 = Inr candidates
        \<and> candidates \<noteq> []
        \<and> try_llm env orc candidates = Inl e \<longrightarrow>
      post_api_recommendations env orc st body = Json200 (fallback sourceProducts candidates))"
proof (intro conjI impI)
  assume "getRecommendationsAPIConfig env = Inl e"
  then have "try_llm env orc candidates = Inl e"
    by (rule try_llm_config_error)
  then show "findNearestProductsWithLLM env orc sourceProducts candidates rt
        = fallback sourceProducts candidates"
    by (rule findNearest_on_error)
next
  assume "getRecommendationsAPIConfig env = Inr cfg \<and> \<not> useNeurolink cfg
        \<and> fetch orc (url cfg) (apiKey cfg) = Inl e"
  then have "try_llm env orc candidates = Inl e"
    by (simp add: try_llm_call_error llm_call_fetch_error)
  then show "findNearestProductsWithLLM env orc sourceProducts candidates rt
        = fallback sourceProducts candidates"
    by (rule findNearest_on_error)
next
  assume "getRecommendationsAPIConfig env = Inr cfg \<and> useNeurolink cfg
        \<and> neurolink_generate orc = Inl e"
  then have "try_llm env orc candidates = Inl e"
    by (simp add: try_llm_call_error llm_call_neurolink_error)
  then show "findNearestProductsWithLLM env orc sourceProducts candidates rt
        = fallback sourceProducts candidates"
    by (rule findNearest_on_error)
next
  assume "getRecommendationsAPIConfig env = Inr cfg \<and> \<not> useNeurolink cfg
        \<and> fetch orc (url cfg) (apiKey cfg) = Inr response \<and> \<not> response_ok response"
  then have "try_llm env orc candidates
               = Inl (ApiError (response_status response) (response_body response))"
    by (simp add: try_llm_call_error llm_call_status_error)
  then show "findNearestProductsWithLLM env orc sourceProducts candidates rt
        = fallback sourceProducts candidates"
    by (rule findNearest_on_error)
next
  assume "getRecommendationsAPIConfig env = Inr cfg \<and> \<not> useNeurolink cfg
        \<and> fetch orc (url cfg) (apiKey cfg) = Inr response \<and> response_ok response
        \<and> response_json_content orc (response_body response) = Inl e"
  then have "try_llm env orc candidates = Inl e"
    by (simp add: try_llm_call_error llm_call_body_error)
  then show "findNearestProductsWithLLM env orc sourceProducts candidates rt
        = fallback sourceProducts candidates"
    by (rule findNearest_on_error)
next
  assume "getRecommendationsAPIConfig env = Inr cfg \<and> llm_call orc cfg = Inr llmResponse
        \<and> match_braces (trim (strip_fence_end (strip_fence_start llmResponse))) = None"
  then have "try_llm env orc candidates = Inl NoJsonFound"
    by (simp add: try_llm_parse_error parse_no_json)
  then show "findNearestProductsWithLLM env orc sourceProducts candidates rt
        = fallback sourceProducts candidates"
    by (rule findNearest_on_error)
next
  assume "getRecommendationsAPIConfig env = Inr cfg \<and> llm_call orc cfg = Inr llmResponse
        \<and> match_braces (trim (strip_fence_end (strip_fence_start llmResponse))) = Some jsonMatch
        \<and> JSON_parse orc jsonMatch = Inl e"
  then have "try_llm env orc candidates = Inl e"
    by (simp add: try_llm_parse_error parse_invalid_json)
  then show "findNearestProductsWithLLM env orc sourceProducts candidates rt
        = fallback sourceProducts candidates"
    by (rule findNearest_on_error)
next
  assume "post_api_recommendations env orc st body = Json500 e'"
  then show "e' = StorageError \<or> e' = NoProductsFound"
    by (rule post_api_recommendations_500)
next
  assume "body_shop_id body = Some shop \<and> shop \<noteq> []
        \<and> body_product_ids body = Some product_ids \<and> product_ids \<noteq> []
        \<and> \<not> connect_fails_getRecommendations st
        \<and> getProductsByIds st product_ids = Inr sourceProducts \<and> sourceProducts \<noteq> []
        \<and> getRelatedTags st (collect_source_tags sourceProducts) 50 = Inr relatedTags
        \<and> getCandidateProductsByTags st shop relatedTags product_ids 100 = Inr candidates
        \<and> candidates \<noteq> []
        \<and> try_llm env orc candidates = Inl e"
  then show "post_api_recommendations env orc st body
               = Json200 (fallback sourceProducts candidates)"
    by (simp add: post_api_recommendations_fallback)
qed

theorem C3_oracle_errors_fall_back_witness:
  "getRecommendationsAPIConfig ex_env_no_key = Inl NoApiKeyFound
   \<and> findNearestProductsWithLLM ex_env_no_key ex_oracle_down [ex_tshirt]
        [ex_polo, ex_sneakers, ex_jeans] [Upsell, Crosssell]
       = fallback [ex_tshirt] [ex_polo, ex_sneakers, ex_jeans]
   \<and> post_api_recommendations ex_env_no_key ex_oracle_down ex_storage ex_body
       = Json200 (fallback [ex_tshirt] [ex_polo, ex_sneakers, ex_jeans])"
proof -
  note t = C3_oracle_errors_fall_back[where env = ex_env_no_key and e = NoApiKeyFound
      and orc = ex_oracle_down and sourceProducts = "[ex_tshirt]"
      and candidates = "[ex_polo, ex_sneakers, ex_jeans]" and rt = "[Upsell, Crosssell]"
      and st = ex_storage and body = ex_body and shop = "''shop_1''"
      and product_ids = "[1001]" and relatedTags = "[''jeans'', ''sneakers'', ''polo'']"]
  have a: "findNearestProductsWithLLM ex_env_no_key ex_oracle_down [ex_tshirt]
        [ex_polo, ex_sneakers, ex_jeans] [Upsell, Crosssell]
       = fallback [ex_tshirt] [ex_polo, ex_sneakers, ex_jeans]"
    by (rule t[THEN conjunct1, THEN mp, OF ex_no_key])
  have h: "body_shop_id ex_body = Some ''shop_1'' \<and> ''shop_1'' \<noteq> []
        \<and> body_product_ids ex_body = Some [1001] \<and> [1001] \<noteq> ([] :: int list)
        \<and> \<not> connect_fails_getRecommendations ex_storage
        \<and> getProductsByIds ex_storage [1001] = Inr [ex_tshirt] \<and> [ex_tshirt] \<noteq> []
        \<and> getRelatedTags ex_storage (collect_source_tags [ex_tshirt]) 50
            = Inr [''jeans'', ''sneakers'', ''polo'']
        \<and> getCandidateProductsByTags ex_storage ''shop_1'' [''jeans'', ''sneakers'', ''polo'']
            [1001] 100 = Inr [ex_polo, ex_sneakers, ex_jeans]
        \<and> [ex_polo, ex_sneakers, ex_jeans] \<noteq> []
        \<and> try_llm ex_env_no_key ex_oracle_down [ex_polo, ex_sneakers, ex_jeans]
            = Inl NoApiKeyFound"
    by (simp add: ex_body_def ex_getProductsByIds ex_collect_source_tags ex_getRelatedTags
                  ex_getCandidateProductsByTags try_llm_config_error[OF ex_no_key])
       (simp add: ex_storage_def)
  have b: "post_api_recommendations ex_env_no_key ex_oracle_down ex_storage ex_body
       = Json200 (fallback [ex_tshirt] [ex_polo, ex_sneakers, ex_jeans])"
    by (rule t[THEN conjunct2, THEN conjunct2, THEN conjunct2, THEN conjunct2,
                THEN conjunct2, THEN conjunct2, THEN conjunct2, THEN conjunct2, THEN mp, OF h])
  from ex_no_key a b show ?thesis by (intro conjI)
qed

text \<open>
  C5. The fallback result depends on the source products and the candidate pool only:
  two invocations that take the fallback path on the same source products and the
  same pool, whatever the environment, the oracle's behaviour, the cause of the
  failure and the requested types, return the same two lists, entry for entry.
\<close>

theorem C5_fallback_deterministic:
  assumes "try_llm env1 orc1 candidates = Inl e1"
    and "try_llm env2 orc2 candidates = Inl e2"
  shows "findNearestProductsWithLLM env1 orc1 sourceProducts candidates rt1
           = findNearestProductsWithLLM env2 orc2 sourceProducts candidates rt2
         \<and> upsell (findNearestProductsWithLLM env1 orc1 sourceProducts candidates rt1)
           = upsell (findNearestProductsWithLLM env2 orc2 sourceProducts candidates rt2)
         \<and> crosssell (findNearestProductsWithLLM env1 orc1 sourceProducts candidates rt1)
           = crosssell (findNearestProductsWithLLM env2 orc2 sourceProducts candidates rt2)
         \<and> findNearestProductsWithLLM env1 orc1 sourceProducts candidates rt1
           = fallback sourceProducts candidates"
  using assms by (simp add: findNearest_on_error)

theorem C5_fallback_deterministic_witness:
  "try_llm ex_env_no_key ex_oracle_down [ex_polo, ex_sneakers, ex_jeans] = Inl NoApiKeyFound
   \<and> try_llm ex_env_neurolink ex_oracle_down [ex_polo, ex_sneakers, ex_jeans] = Inl NeurolinkFailed
   \<and> findNearestProductsWithLLM ex_env_no_key ex_oracle_down [ex_tshirt]
        [ex_polo, ex_sneakers, ex_jeans] [Upsell]
       = findNearestProductsWithLLM ex_env_neurolink ex_oracle_down [ex_tshirt]
        [ex_polo, ex_sneakers, ex_jeans] [Crosssell]"
proof -
  have h1: "try_llm ex_env_no_key ex_oracle_down [ex_polo, ex_sneakers, ex_jeans]
              = Inl NoApiKeyFound"
    by (rule try_llm_config_error[OF ex_no_key])
  have h2: "try_llm ex_env_neurolink ex_oracle_down [ex_polo, ex_sneakers, ex_jeans]
              = Inl NeurolinkFailed"
    by (rule try_llm_call_error[OF ex_neurolink_config])
       (simp add: llm_call_def ex_oracle_down_def)
  note t = C5_fallback_deterministic[OF h1 h2, of "[ex_tshirt]" "[Upsell]" "[Crosssell]"]
  from h1 h2 t[THEN conjunct1] show ?thesis by (intro conjI)
qed

section \<open>Ranking fallback: the mean of the source prices\<close>

text \<open>
  The value the code computes in place of the mean. For one source priced 30 the text
  is \<open>030\<close> and the value 30, the price itself. For two sources priced 30 and 20 the
  text is \<open>03020\<close> and the value 1510, where the mean is 25. For two sources priced
  29.99 and 49.99 the text is \<open>029.9949.99\<close>, which is not a number.
\<close>

lemmas ToNumber_defs =
  ToNumber_def unsigned_decimal_def digits_value_def is_digit_def trim_def is_space_def

lemma ex_avgPrice_one: "avgPrice [ex_tshirt] = Some 30"
  by (simp add: avgPrice_def ToNumber_defs ex_tshirt_def)

lemma ex_avgPrice_two: "avgPrice [ex_tshirt, ex_tank] = Some 1510"
  by (simp add: avgPrice_def ToNumber_defs ex_tshirt_def ex_tank_def)

lemma ex_avgPrice_decimals:
  "avgPrice [ex_tshirt\<lparr>price := ''29.99''\<rparr>, ex_tank\<lparr>price := ''49.99''\<rparr>] = None"
  by (simp add: avgPrice_def ToNumber_defs)

lemma ex_mean_price_two: "mean_price [ex_tshirt, ex_tank] = 25"
  by (simp add: mean_price_def price_value_def ToNumber_defs ex_tshirt_def ex_tank_def)

lemma ex_goes_upsell_one:
  "goes_upsell [ex_tshirt] (c, v) = (isSameCategory [ex_tshirt] c \<and> variant_price v \<ge> 30)"
  by (simp add: goes_upsell_def isHigherPrice_def ex_avgPrice_one)

lemma ex_goes_upsell_two:
  "goes_upsell [ex_tshirt, ex_tank] (c, v)
     = (isSameCategory [ex_tshirt, ex_tank] c \<and> variant_price v \<ge> 1510)"
  by (simp add: goes_upsell_def isHigherPrice_def ex_avgPrice_two)

lemma ex_polo_fields:
  "product_id ex_polo = 1003"
  "variants ex_polo =
     [\<lparr>variant_id = 10031, variant_title = ''Small'', variant_price = 40,
       inventory_quantity = 30\<rparr>,
      \<lparr>variant_id = 10032, variant_title = ''Outlet'', variant_price = 25,
       inventory_quantity = 30\<rparr>]"
  by (simp_all add: ex_polo_def)

lemma ex_fallback_two:
  "fallback [ex_tshirt, ex_tank] [ex_polo] =
     \<lparr>upsell = [],
      crosssell = [fallback_scored ex_polo (variants ex_polo ! 0),
                   fallback_scored ex_polo (variants ex_polo ! 1)]\<rparr>"
  by (simp add: fallback_closed_form expand_variants_def ex_polo_fields ex_goes_upsell_two)

lemma ex_spec_is_upsell_two:
  "spec_is_upsell [ex_tshirt, ex_tank] (ex_polo, v) = (variant_price v \<ge> 25)"
proof -
  have cat: "\<exists>p \<in> set [ex_tshirt, ex_tank]. category p = category ex_polo"
    by (simp add: ex_defs)
  show ?thesis
    unfolding spec_is_upsell_def using cat by (simp add: ex_mean_price_two)
qed

lemma ex_spec_lists_two:
  "spec_upsell [ex_tshirt, ex_tank] [ex_polo] = [(1003, 10031, 40), (1003, 10032, 25)]"
  "spec_crosssell [ex_tshirt, ex_tank] [ex_polo] = []"
  by (simp_all add: spec_upsell_def spec_crosssell_def expand_variants_def spec_entry_def
                    ex_spec_is_upsell_two ex_polo_fields)

lemma ex_code_lists_two:
  "map code_entry (upsell (fallback [ex_tshirt, ex_tank] [ex_polo])) = []"
  "map code_entry (crosssell (fallback [ex_tshirt, ex_tank] [ex_polo]))
     = [(1003, 10031, 40), (1003, 10032, 25)]"
  by (simp_all add: ex_fallback_two code_entry_def fallback_scored_def ex_polo_fields)

lemma ex_fallback_decimals:
  "upsell (fallback [ex_tshirt\<lparr>price := ''29.99''\<rparr>, ex_tank\<lparr>price := ''49.99''\<rparr>]
             [ex_polo]) = []"
  by (simp add: fallback_closed_form goes_upsell_def isHigherPrice_def ex_avgPrice_decimals)

lemma ex_fallback_two_pool:
  "upsell (fallback [ex_tshirt, ex_tank] [ex_polo, ex_sneakers, ex_jeans]) = []"
proof -
  have "\<And>e. \<not> goes_upsell [ex_tshirt, ex_tank] e
              \<or> variant_price (snd e) \<ge> 1510"
    by (simp add: goes_upsell_def isHigherPrice_def ex_avgPrice_two)
  moreover have "\<forall>e \<in> set (expand_variants (take 20 [ex_polo, ex_sneakers, ex_jeans])).
                   variant_price (snd e) < 1510"
    by (simp add: expand_variants_def ex_defs)
  ultimately have "filter (goes_upsell [ex_tshirt, ex_tank])
                     (expand_variants (take 20 [ex_polo, ex_sneakers, ex_jeans])) = []"
    by (fastforce simp: filter_empty_conv)
  then show ?thesis by (simp add: fallback_closed_form)
qed

lemma ex_two_sources_request:
  "getRecommendations ex_env_no_key ex_oracle_down ex_storage ''shop_1'' [1001, 1002]
      [Upsell, Crosssell]
     = Inr (fallback [ex_tshirt, ex_tank] [ex_polo, ex_sneakers, ex_jeans])"
proof -
  have c: "\<not> connect_fails_getRecommendations ex_storage"
    by (simp add: ex_storage_def)
  have s: "getProductsByIds ex_storage [1001, 1002] = Inr [ex_tshirt, ex_tank]"
    by (simp add: getProductsByIds_def ex_storage_def ex_products_def ex_defs)
  have t: "collect_source_tags [ex_tshirt, ex_tank] = [''t-shirt'']"
    by (simp add: collect_source_tags_def Set_add_def ex_defs)
  have k: "getCandidateProductsByTags ex_storage ''shop_1'' [''jeans'', ''sneakers'', ''polo'']
             [1001, 1002] 100 = Inr [ex_polo, ex_sneakers, ex_jeans]"
    by (simp add: getCandidateProductsByTags_def ex_storage_def candidate_rows_def
                  candidate_where_def composite_score_def ex_products_def ex_defs)
  show ?thesis
    by (simp add: getRecommendations_def c s recommend_from_sources_def t ex_getRelatedTags k
                  findNearest_on_error[OF try_llm_config_error[OF ex_no_key]])
qed

text \<open>
  C2. The claim is that for every non-empty list of source products the fallback puts
  an expanded entry in the upsell list exactly when the candidate's category is the
  category of some source product and the variant's price is at least the arithmetic
  mean of the source prices. The code does not do so for two source products. For the
  T-shirt (30) and the tank top (20), both of the polo's category, the mean is 25 and
  both polo variants (40 and 25) are upsells by the claim; the code divides 3020 by
  2, compares with 1510, and returns no upsell and both variants as crosssell. With
  the prices 29.99 and 49.99 the code's value is not a number and the upsell list is
  empty again. The request for the two products reaches this with any failing oracle.
\<close>

theorem C2_fallback_two_sources:
  "[ex_tshirt, ex_tank] \<noteq> []
   \<and> mean_price [ex_tshirt, ex_tank] = 25
   \<and> spec_upsell [ex_tshirt, ex_tank] [ex_polo] = [(1003, 10031, 40), (1003, 10032, 25)]
   \<and> spec_crosssell [ex_tshirt, ex_tank] [ex_polo] = []
   \<and> avgPrice [ex_tshirt, ex_tank] = Some 1510
   \<and> map code_entry (upsell (fallback [ex_tshirt, ex_tank] [ex_polo])) = []
   \<and> map code_entry (crosssell (fallback [ex_tshirt, ex_tank] [ex_polo]))
       = [(1003, 10031, 40), (1003, 10032, 25)]
   \<and> avgPrice [ex_tshirt\<lparr>price := ''29.99''\<rparr>, ex_tank\<lparr>price := ''49.99''\<rparr>] = None
   \<and> upsell (fallback [ex_tshirt\<lparr>price := ''29.99''\<rparr>, ex_tank\<lparr>price := ''49.99''\<rparr>]
                [ex_polo]) = []
   \<and> getRecommendations ex_env_no_key ex_oracle_down ex_storage ''shop_1'' [1001, 1002]
        [Upsell, Crosssell]
       = Inr (fallback [ex_tshirt, ex_tank] [ex_polo, ex_sneakers, ex_jeans])
   \<and> upsell (fallback [ex_tshirt, ex_tank] [ex_polo, ex_sneakers, ex_jeans]) = []"
  by (intro conjI ex_mean_price_two ex_spec_lists_two ex_avgPrice_two ex_code_lists_two
            ex_avgPrice_decimals ex_fallback_decimals ex_two_sources_request
            ex_fallback_two_pool) simp

section \<open>Upsell and crosssell lists: shared entries\<close>

lemma ex_parse_both:
  "parse_llm_response ex_oracle_both ex_answer
     = Inr \<lparr>upsell_ids = Some [1003], crosssell_ids = Some [1003]\<rparr>"
  by (simp add: parse_llm_response_def strip_fence_start_def strip_fence_end_def fence_def
                trim_def is_space_def match_braces_def ex_answer_def ex_oracle_both_def Let_def)

lemma ex_try_llm_both:
  "try_llm ex_env_neurolink ex_oracle_both [ex_polo, ex_sneakers, ex_jeans]
     = Inr (llm_ranked [ex_polo, ex_sneakers, ex_jeans]
              \<lparr>upsell_ids = Some [1003], crosssell_ids = Some [1003]\<rparr>)"
proof -
  have g: "neurolink_generate ex_oracle_both = Inr ex_answer"
    by (simp add: ex_oracle_both_def)
  show ?thesis
    by (simp add: try_llm_def ex_neurolink_config llm_call_def g ex_parse_both)
qed

lemma ex_llm_ranked_both:
  "llm_ranked [ex_polo, ex_sneakers, ex_jeans]
       \<lparr>upsell_ids = Some [1003], crosssell_ids = Some [1003]\<rparr>
     = \<lparr>upsell = [upsell_scored ex_polo (variants ex_polo ! 0),
                  upsell_scored ex_polo (variants ex_polo ! 1)],
        crosssell = [crosssell_scored ex_polo (variants ex_polo ! 0),
                     crosssell_scored ex_polo (variants ex_polo ! 1)]\<rparr>"
  by (simp add: llm_ranked_def expand_ids_def or_empty_def config_limits_def ex_defs)

text \<open>
  C8 as stated fails on the oracle-success path: when the oracle names product 1003
  in both arrays, the pair (1003, 10031) is in the upsell list and in the crosssell
  list of the result.
\<close>

theorem C8_counterexample:
  "(1003, 10031) \<in> set (map entry_key (upsell
       (findNearestProductsWithLLM ex_env_neurolink ex_oracle_both [ex_tshirt]
          [ex_polo, ex_sneakers, ex_jeans] [Upsell, Crosssell])))
   \<and> (1003, 10031) \<in> set (map entry_key (crosssell
       (findNearestProductsWithLLM ex_env_neurolink ex_oracle_both [ex_tshirt]
          [ex_polo, ex_sneakers, ex_jeans] [Upsell, Crosssell])))"
  by (simp add: findNearestProductsWithLLM_def ex_try_llm_both ex_llm_ranked_both)
     (simp add: entry_key_def upsell_scored_def crosssell_scored_def ex_polo_def)

lemma entry_key_fallback_scored:
  "entry_key (fallback_scored c v) = pair_key (c, v)"
  by (simp add: entry_key_def fallback_scored_def pair_key_def)

lemma sp_id_upsell_scored: "sp_id (upsell_scored c v) = product_id c"
  by (simp add: upsell_scored_def)

lemma sp_id_crosssell_scored: "sp_id (crosssell_scored c v) = product_id c"
  by (simp add: crosssell_scored_def)

lemma pair_key_expand_fst:
  "k \<in> set (map pair_key (expand_variants cs)) \<Longrightarrow> fst k \<in> product_id ` set cs"
  by (auto simp: expand_variants_def pair_key_def)

lemma distinct_expand_variants:
  assumes "distinct (map product_id cs)"
    and "\<forall>c \<in> set cs. distinct (map variant_id (variants c))"
  shows "distinct (map pair_key (expand_variants cs))"
  using assms
proof (induction cs)
  case Nil
  show ?case by (simp add: expand_variants_def)
next
  case (Cons c cs)
  have own: "distinct (map pair_key (map (\<lambda>v. (c, v)) (variants c)))"
  proof -
    have "distinct (map variant_id (variants c))" using Cons.prems(2) by simp
    then have "distinct (map (\<lambda>v. (product_id c, variant_id v)) (variants c))"
      by (simp add: distinct_map inj_on_def)
    then show ?thesis by (simp add: pair_key_def comp_def)
  qed
  have rest: "distinct (map pair_key (expand_variants cs))"
    using Cons.IH Cons.prems by simp
  have apart: "set (map pair_key (map (\<lambda>v. (c, v)) (variants c)))
                 \<inter> set (map pair_key (expand_variants cs)) = {}"
  proof (rule ccontr)
    assume "set (map pair_key (map (\<lambda>v. (c, v)) (variants c)))
                 \<inter> set (map pair_key (expand_variants cs)) \<noteq> {}"
    then obtain k where k1: "k \<in> set (map pair_key (map (\<lambda>v. (c, v)) (variants c)))"
      and k2: "k \<in> set (map pair_key (expand_variants cs))"
      by blast
    from k1 have "fst k = product_id c" by (auto simp: pair_key_def)
    moreover from k2 have "fst k \<in> product_id ` set cs" by (rule pair_key_expand_fst)
    ultimately show False using Cons.prems(1) by simp
  qed
  from own rest apart show ?case
    by (simp add: expand_variants_Cons)
qed

lemma fallback_lists_disjoint:
  assumes "distinct (map product_id candidates)"
    and "\<forall>c \<in> set candidates. distinct (map variant_id (variants c))"
  shows "lists_disjoint (fallback sourceProducts candidates)"
proof -
  let ?E = "expand_variants (take 20 candidates)"
  let ?P = "goes_upsell sourceProducts"
  have d1: "distinct (map product_id (take 20 candidates))"
    using assms(1) by (simp add: take_map[symmetric] distinct_take)
  have d2: "\<forall>c \<in> set (take 20 candidates). distinct (map variant_id (variants c))"
    using assms(2) by (meson in_set_takeD)
  have inj: "inj_on pair_key (set ?E)"
    using distinct_expand_variants[OF d1 d2] by (simp add: distinct_map)
  have up: "set (map entry_key (upsell (fallback sourceProducts candidates)))
              \<subseteq> pair_key ` {e \<in> set ?E. ?P e}"
  proof
    fix k assume "k \<in> set (map entry_key (upsell (fallback sourceProducts candidates)))"
    then obtain e where "e \<in> set (take 10 (filter ?P ?E))" and "k = pair_key e"
      by (auto simp: fallback_closed_form take_map entry_key_fallback_scored)
    then show "k \<in> pair_key ` {e \<in> set ?E. ?P e}"
      by (auto dest: in_set_takeD)
  qed
  have cross: "set (map entry_key (crosssell (fallback sourceProducts candidates)))
              \<subseteq> pair_key ` {e \<in> set ?E. \<not> ?P e}"
  proof
    fix k assume "k \<in> set (map entry_key (crosssell (fallback sourceProducts candidates)))"
    then obtain e where "e \<in> set (take 10 (filter (\<lambda>e. \<not> ?P e) ?E))" and "k = pair_key e"
      by (auto simp: fallback_closed_form take_map entry_key_fallback_scored)
    then show "k \<in> pair_key ` {e \<in> set ?E. \<not> ?P e}"
      by (auto dest: in_set_takeD)
  qed
  have "pair_key ` {e \<in> set ?E. ?P e} \<inter> pair_key ` {e \<in> set ?E. \<not> ?P e} = {}"
    using inj by (auto simp: inj_on_def)
  with up cross show ?thesis
    unfolding lists_disjoint_def by blast
qed

lemma fold_expand_ids_sp_id:
  assumes "\<And>c v. sp_id (mk c v) = product_id c"
  shows "set (fold (\<lambda>productId out.
                 case find (\<lambda>c. product_id c = productId) candidateList of
                   None \<Rightarrow> out
                 | Some candidate \<Rightarrow> out @ map (mk candidate) (variants candidate)) ids acc)
           \<subseteq> set acc \<union> {s. sp_id s \<in> set ids}"
proof (induction ids arbitrary: acc)
  case Nil
  show ?case by simp
next
  case (Cons i ids)
  let ?step = "\<lambda>productId out.
                 case find (\<lambda>c. product_id c = productId) candidateList of
                   None \<Rightarrow> out
                 | Some candidate \<Rightarrow> out @ map (mk candidate) (variants candidate)"
  have one: "set (?step i acc) \<subseteq> set acc \<union> {s. sp_id s = i}"
  proof (cases "find (\<lambda>c. product_id c = i) candidateList")
    case None
    then show ?thesis by simp
  next
    case (Some c)
    then have "product_id c = i" by (auto simp: find_Some_iff)
    with Some show ?thesis by (auto simp: assms)
  qed
  have "set (fold ?step (i # ids) acc) = set (fold ?step ids (?step i acc))"
    by simp
  also have "\<dots> \<subseteq> set (?step i acc) \<union> {s. sp_id s \<in> set ids}"
    by (rule Cons.IH)
  also have "\<dots> \<subseteq> set acc \<union> {s. sp_id s \<in> set (i # ids)}"
    using one by auto
  finally show ?case .
qed

lemma expand_ids_sp_id:
  assumes "\<And>c v. sp_id (mk c v) = product_id c"
    and "s \<in> set (expand_ids mk candidateList ids)"
  shows "sp_id s \<in> set ids"
  using fold_expand_ids_sp_id[of mk candidateList ids "[]", OF assms(1)] assms(2)
  by (auto simp: expand_ids_def)

lemma llm_ranked_lists_disjoint:
  assumes "set (or_empty (upsell_ids recommendations))
             \<inter> set (or_empty (crosssell_ids recommendations)) = {}"
  shows "lists_disjoint (llm_ranked candidates recommendations)"
proof -
  have up: "\<And>s. s \<in> set (upsell (llm_ranked candidates recommendations))
              \<Longrightarrow> sp_id s \<in> set (or_empty (upsell_ids recommendations))"
  proof -
    fix s assume "s \<in> set (upsell (llm_ranked candidates recommendations))"
    then have "s \<in> set (expand_ids upsell_scored candidates
                           (or_empty (upsell_ids recommendations)))"
      by (auto simp: llm_ranked_def Let_def dest: in_set_takeD)
    then show "sp_id s \<in> set (or_empty (upsell_ids recommendations))"
      by (rule expand_ids_sp_id[OF sp_id_upsell_scored])
  qed
  have cross: "\<And>s. s \<in> set (crosssell (llm_ranked candidates recommendations))
              \<Longrightarrow> sp_id s \<in> set (or_empty (crosssell_ids recommendations))"
  proof -
    fix s assume "s \<in> set (crosssell (llm_ranked candidates recommendations))"
    then have "s \<in> set (expand_ids crosssell_scored candidates
                           (or_empty (crosssell_ids recommendations)))"
      by (auto simp: llm_ranked_def Let_def dest: in_set_takeD)
    then show "sp_id s \<in> set (or_empty (crosssell_ids recommendations))"
      by (rule expand_ids_sp_id[OF sp_id_crosssell_scored])
  qed
  show ?thesis
    unfolding lists_disjoint_def
  proof (rule ccontr)
    assume "set (map entry_key (upsell (llm_ranked candidates recommendations)))
              \<inter> set (map entry_key (crosssell (llm_ranked candidates recommendations))) \<noteq> {}"
    then obtain k where
      k1: "k \<in> set (map entry_key (upsell (llm_ranked candidates recommendations)))" and
      k2: "k \<in> set (map entry_key (crosssell (llm_ranked candidates recommendations)))"
      by blast
    from k1 obtain s1 where s1: "s1 \<in> set (upsell (llm_ranked candidates recommendations))"
      and e1: "entry_key s1 = k" by auto
    from k2 obtain s2 where s2: "s2 \<in> set (crosssell (llm_ranked candidates recommendations))"
      and e2: "entry_key s2 = k" by auto
    from e1 e2 have eq: "entry_key s1 = entry_key s2" by simp
    from eq have "sp_id s1 = sp_id s2" by (simp add: entry_key_def)
    with up[OF s1] cross[OF s2] assms show False by auto
  qed
qed

text \<open>
  Without a condition on the data the fallback is not free of shared pairs either: a
  candidate whose variants repeat a variant id at two prices, one on each side of the
  mean, has the pair in both lists.
\<close>

lemma ex_fallback_repeated_variant_id:
  "\<not> lists_disjoint (fallback [ex_tshirt] [ex_twin])"
  by (simp add: lists_disjoint_def fallback_closed_form expand_variants_def ex_twin_def
                ex_goes_upsell_one entry_key_def fallback_scored_def)
     (simp add: isSameCategory_def ex_defs)

lemma ex_parse_split:
  "parse_llm_response ex_oracle_split ex_answer_split
     = Inr \<lparr>upsell_ids = Some [1003], crosssell_ids = Some [3001, 2001]\<rparr>"
  by (simp add: parse_llm_response_def strip_fence_start_def strip_fence_end_def fence_def
                trim_def is_space_def match_braces_def ex_answer_split_def ex_oracle_split_def
                Let_def)

lemma ex_llm_call_split:
  "llm_call ex_oracle_split \<lparr>url = [], apiKey = [], useNeurolink = True\<rparr> = Inr ex_answer_split"
  by (simp add: llm_call_def ex_oracle_split_def)

text \<open>
  C8, amended. On the fallback path the two lists share no (product id, variant id)
  pair when the candidates have distinct ids and every candidate has distinct variant
  ids. On the oracle-success path they share no pair when the oracle's upsell and
  crosssell id arrays have no id in common; nothing in the code removes an id that
  the oracle returns in both arrays.
\<close>

theorem C8_lists_disjoint_amended:
  "(try_llm env orc candidates = Inl e
      \<and> distinct (map product_id candidates)
      \<and> (\<forall>c \<in> set candidates. distinct (map variant_id (variants c)))
     \<longrightarrow> lists_disjoint (findNearestProductsWithLLM env orc sourceProducts candidates rt))
   \<and> (getRecommendationsAPIConfig env = Inr cfg
      \<and> llm_call orc cfg = Inr llmResponse
      \<and> parse_llm_response orc llmResponse = Inr recommendations
      \<and> set (or_empty (upsell_ids recommendations))
          \<inter> set (or_empty (crosssell_ids recommendations)) = {}
     \<longrightarrow> lists_disjoint (findNearestProductsWithLLM env orc sourceProducts candidates rt))"
proof (intro conjI impI)
  assume a: "try_llm env orc candidates = Inl e
      \<and> distinct (map product_id candidates)
      \<and> (\<forall>c \<in> set candidates. distinct (map variant_id (variants c)))"
  then have "findNearestProductsWithLLM env orc sourceProducts candidates rt
               = fallback sourceProducts candidates"
    by (simp add: findNearest_on_error)
  with a show "lists_disjoint (findNearestProductsWithLLM env orc sourceProducts candidates rt)"
    by (simp add: fallback_lists_disjoint)
next
  assume a: "getRecommendationsAPIConfig env = Inr cfg
      \<and> llm_call orc cfg = Inr llmResponse
      \<and> parse_llm_response orc llmResponse = Inr recommendations
      \<and> set (or_empty (upsell_ids recommendations))
          \<inter> set (or_empty (crosssell_ids recommendations)) = {}"
  then have "findNearestProductsWithLLM env orc sourceProducts candidates rt
               = llm_ranked candidates recommendations"
    by (simp add: findNearestProductsWithLLM_def try_llm_def)
  with a show "lists_disjoint (findNearestProductsWithLLM env orc sourceProducts candidates rt)"
    by (simp add: llm_ranked_lists_disjoint)
qed

theorem C8_lists_disjoint_amended_witness:
  "try_llm ex_env_no_key ex_oracle_down [ex_polo, ex_sneakers, ex_jeans] = Inl NoApiKeyFound
   \<and> distinct (map product_id [ex_polo, ex_sneakers, ex_jeans])
   \<and> distinct (map variant_id (variants ex_polo))
   \<and> lists_disjoint (findNearestProductsWithLLM ex_env_no_key ex_oracle_down [ex_tshirt]
        [ex_polo, ex_sneakers, ex_jeans] [Upsell, Crosssell])
   \<and> parse_llm_response ex_oracle_split ex_answer_split
       = Inr \<lparr>upsell_ids = Some [1003], crosssell_ids = Some [3001, 2001]\<rparr>
   \<and> set [1003 :: int] \<inter> set [3001, 2001] = {}
   \<and> lists_disjoint (findNearestProductsWithLLM ex_env_neurolink ex_oracle_split [ex_tshirt]
        [ex_polo, ex_sneakers, ex_jeans] [Upsell, Crosssell])"
proof -
  have h1: "try_llm ex_env_no_key ex_oracle_down [ex_polo, ex_sneakers, ex_jeans]
              = Inl NoApiKeyFound"
    by (rule try_llm_config_error[OF ex_no_key])
  have h2: "distinct (map product_id [ex_polo, ex_sneakers, ex_jeans])"
    by (simp add: ex_defs)
  have h3: "\<forall>c \<in> set [ex_polo, ex_sneakers, ex_jeans]. distinct (map variant_id (variants c))"
    by (simp add: ex_defs)
  have h4: "set (or_empty (upsell_ids \<lparr>upsell_ids = Some [1003], crosssell_ids = Some [3001, 2001]\<rparr>))
          \<inter> set (or_empty (crosssell_ids \<lparr>upsell_ids = Some [1003],
                                           crosssell_ids = Some [3001, 2001]\<rparr>)) = {}"
    by (simp add: or_empty_def)
  note t = C8_lists_disjoint_amended[where sourceProducts = "[ex_tshirt]"
      and candidates = "[ex_polo, ex_sneakers, ex_jeans]" and rt = "[Upsell, Crosssell]"]
  have a: "lists_disjoint (findNearestProductsWithLLM ex_env_no_key ex_oracle_down [ex_tshirt]
        [ex_polo, ex_sneakers, ex_jeans] [Upsell, Crosssell])"
    by (rule t[THEN conjunct1, THEN mp]) (intro conjI; (rule h1 h2 h3))
  have b: "lists_disjoint (findNearestProductsWithLLM ex_env_neurolink ex_oracle_split [ex_tshirt]
        [ex_polo, ex_sneakers, ex_jeans] [Upsell, Crosssell])"
    by (rule t[THEN conjunct2, THEN mp])
       (intro conjI; (rule ex_neurolink_config ex_llm_call_split ex_parse_split h4))
  have c: "distinct (map variant_id (variants ex_polo))" by (simp add: ex_polo_def)
  have d: "set [1003 :: int] \<inter> set [3001, 2001] = {}" by simp
  from h1 h2 c a ex_parse_split d b show ?thesis by (intro conjI)
qed

section \<open>Storage errors on the request path\<close>

lemma getRelatedTags_loop_fails:
  "\<exists>tag \<in> set tags_in. query_fails_tag_graph st tag \<Longrightarrow>
   getRelatedTags_loop st tags_in acc = Inl StorageError"
proof (induction tags_in arbitrary: acc)
  case Nil
  then show ?case by simp
next
  case (Cons tag rest)
  show ?case
  proof (cases "query_fails_tag_graph st tag")
    case True
    then show ?thesis by simp
  next
    case False
    with Cons.prems have "\<exists>tag \<in> set rest. query_fails_tag_graph st tag" by simp
    then have "\<And>acc'. getRelatedTags_loop st rest acc' = Inl StorageError"
      by (rule Cons.IH)
    with False show ?thesis by (simp split: option.splits)
  qed
qed

lemma getRelatedTags_swallows:
  assumes "\<not> connect_fails_getRelatedTags st"
    and "\<exists>tag \<in> set tags_in. query_fails_tag_graph st tag"
  shows "getRelatedTags st tags_in maxTags = Inr []"
  using assms by (simp add: getRelatedTags_def getRelatedTags_loop_fails)

lemma getCandidateProductsByTags_no_tags:
  "\<not> query_fails_getCandidateProductsByTags st \<Longrightarrow>
   getCandidateProductsByTags st shopId [] excludeIds limit = Inr []"
  by (simp add: getCandidateProductsByTags_def candidate_rows_no_tags)

lemma ex_tag_fault_getProductsByIds:
  "getProductsByIds ex_storage_tag_fault [1001] = Inr [ex_tshirt]"
  by (simp add: getProductsByIds_def ex_storage_tag_fault_def ex_storage_def ex_products_def
                ex_defs)

lemma ex_tag_fault_getRecommendations:
  "getRecommendations ex_env_no_key ex_oracle_down ex_storage_tag_fault ''shop_1'' [1001]
      [Upsell, Crosssell] = Inr \<lparr>upsell = [], crosssell = []\<rparr>"
proof -
  have c: "\<not> connect_fails_getRecommendations ex_storage_tag_fault"
    and r: "\<not> connect_fails_getRelatedTags ex_storage_tag_fault"
    and q: "\<not> query_fails_getCandidateProductsByTags ex_storage_tag_fault"
    and f: "\<exists>tag \<in> set [''t-shirt'']. query_fails_tag_graph ex_storage_tag_fault tag"
    by (simp_all add: ex_storage_tag_fault_def ex_storage_def)
  show ?thesis
    by (simp add: getRecommendations_def c ex_tag_fault_getProductsByIds
                  recommend_from_sources_def ex_collect_source_tags
                  getRelatedTags_swallows[OF r f] getCandidateProductsByTags_no_tags[OF q])
qed

text \<open>
  C9 as stated fails for the related-tag lookup: with a tag graph whose every query is
  rejected, the request for the T-shirt is answered with two empty lists, a normal
  result, and the route replies 200.
\<close>

theorem C9_counterexample:
  "query_fails_tag_graph ex_storage_tag_fault ''t-shirt''
   \<and> getRecommendations ex_env_no_key ex_oracle_down ex_storage_tag_fault ''shop_1'' [1001]
        [Upsell, Crosssell] = Inr \<lparr>upsell = [], crosssell = []\<rparr>
   \<and> post_api_recommendations ex_env_no_key ex_oracle_down ex_storage_tag_fault ex_body
        = Json200 \<lparr>upsell = [], crosssell = []\<rparr>"
proof -
  have a: "query_fails_tag_graph ex_storage_tag_fault ''t-shirt''"
    by (simp add: ex_storage_tag_fault_def)
  have b: "post_api_recommendations ex_env_no_key ex_oracle_down ex_storage_tag_fault ex_body
        = Json200 \<lparr>upsell = [], crosssell = []\<rparr>"
    by (simp add: post_api_recommendations_def ex_body_def ex_tag_fault_getRecommendations)
  from a ex_tag_fault_getRecommendations b show ?thesis by (intro conjI)
qed

text \<open>
  C9, amended. A rejected connection of the request, a rejected source-product query,
  a rejected connection of the related-tag lookup and a rejected candidate query each
  propagate out of \<open>getRecommendations\<close> as an error. A rejected query against the tag
  graph during the related-tag lookup does not: the lookup catches it and returns the
  empty list, and the request then returns two empty lists as a normal result.
\<close>

theorem C9_storage_errors_amended:
  "(connect_fails_getRecommendations st \<longrightarrow>
      getRecommendations env orc st shopId productIds rt = Inl StorageError)
   \<and> (\<not> connect_fails_getRecommendations st \<and> query_fails_getProductsByIds st \<longrightarrow>
      getRecommendations env orc st shopId productIds rt = Inl StorageError)
   \<and> (\<not> connect_fails_getRecommendations st
        \<and> getProductsByIds st productIds = Inr sourceProducts \<and> sourceProducts \<noteq> []
        \<and> connect_fails_getRelatedTags st \<longrightarrow>
      getRecommendations env orc st shopId productIds rt = Inl StorageError)
   \<and> (\<not> connect_fails_getRecommendations st
        \<and> getProductsByIds st productIds = Inr sourceProducts \<and> sourceProducts \<noteq> []
        \<and> getRelatedTags st (collect_source_tags sourceProducts) 50 = Inr relatedTags
        \<and> query_fails_getCandidateProductsByTags st \<longrightarrow>
      getRecommendations env orc st shopId productIds rt = Inl StorageError)
   \<and> (\<not> connect_fails_getRecommendations st
        \<and> getProductsByIds st productIds = Inr sourceProducts \<and> sourceProducts \<noteq> []
        \<and> \<not> connect_fails_getRelatedTags st
        \<and> (\<exists>tag \<in> set (collect_source_tags sourceProducts). query_fails_tag_graph st tag)
        \<and> \<not> query_fails_getCandidateProductsByTags st \<longrightarrow>
      getRelatedTags st (collect_source_tags sourceProducts) 50 = Inr []
      \<and> getRecommendations env orc st shopId productIds rt
          = Inr \<lparr>upsell = [], crosssell = []\<rparr>)"
proof (intro conjI impI)
  assume "connect_fails_getRecommendations st"
  then show "getRecommendations env orc st shopId productIds rt = Inl StorageError"
    by (simp add: getRecommendations_def)
next
  assume "\<not> connect_fails_getRecommendations st \<and> query_fails_getProductsByIds st"
  then show "getRecommendations env orc st shopId productIds rt = Inl StorageError"
    by (simp add: getRecommendations_def getProductsByIds_def)
next
  assume "\<not> connect_fails_getRecommendations st
        \<and> getProductsByIds st productIds = Inr sourceProducts \<and> sourceProducts \<noteq> []
        \<and> connect_fails_getRelatedTags st"
  then show "getRecommendations env orc st shopId productIds rt = Inl StorageError"
    by (simp add: getRecommendations_def recommend_from_sources_def getRelatedTags_def)
next
  assume "\<not> connect_fails_getRecommendations st
        \<and> getProductsByIds st productIds = Inr sourceProducts \<and> sourceProducts \<noteq> []
        \<and> getRelatedTags st (collect_source_tags sourceProducts) 50 = Inr relatedTags
        \<and> query_fails_getCandidateProductsByTags st"
  then show "getRecommendations env orc st shopId productIds rt = Inl StorageError"
    by (simp add: getRecommendations_def recommend_from_sources_def
                  getCandidateProductsByTags_def)
next
  assume a: "\<not> connect_fails_getRecommendations st
        \<and> getProductsByIds st productIds = Inr sourceProducts \<and> sourceProducts \<noteq> []
        \<and> \<not> connect_fails_getRelatedTags st
        \<and> (\<exists>tag \<in> set (collect_source_tags sourceProducts). query_fails_tag_graph st tag)
        \<and> \<not> query_fails_getCandidateProductsByTags st"
  then show "getRelatedTags st (collect_source_tags sourceProducts) 50 = Inr []"
    by (simp add: getRelatedTags_swallows)
  with a show "getRecommendations env orc st shopId productIds rt
          = Inr \<lparr>upsell = [], crosssell = []\<rparr>"
    by (simp add: getRecommendations_def recommend_from_sources_def
                  getCandidateProductsByTags_no_tags)
qed

theorem C9_storage_errors_amended_witness:
  "query_fails_getProductsByIds (ex_storage\<lparr>query_fails_getProductsByIds := True\<rparr>)
   \<and> getRecommendations ex_env_no_key ex_oracle_down
        (ex_storage\<lparr>query_fails_getProductsByIds := True\<rparr>) ''shop_1'' [1001]
        [Upsell, Crosssell] = Inl StorageError
   \<and> query_fails_getCandidateProductsByTags
        (ex_storage\<lparr>query_fails_getCandidateProductsByTags := True\<rparr>)
   \<and> getRecommendations ex_env_no_key ex_oracle_down
        (ex_storage\<lparr>query_fails_getCandidateProductsByTags := True\<rparr>) ''shop_1'' [1001]
        [Upsell, Crosssell] = Inl StorageError
   \<and> query_fails_tag_graph ex_storage_tag_fault ''t-shirt''
   \<and> getRelatedTags ex_storage_tag_fault (collect_source_tags [ex_tshirt]) 50 = Inr []
   \<and> getRecommendations ex_env_no_key ex_oracle_down ex_storage_tag_fault ''shop_1'' [1001]
        [Upsell, Crosssell] = Inr \<lparr>upsell = [], crosssell = []\<rparr>"
proof -
  let ?s2 = "ex_storage\<lparr>query_fails_getProductsByIds := True\<rparr>"
  let ?s4 = "ex_storage\<lparr>query_fails_getCandidateProductsByTags := True\<rparr>"
  have a2: "\<not> connect_fails_getRecommendations ?s2 \<and> query_fails_getProductsByIds ?s2"
    by (simp add: ex_storage_def)
  have r2: "getRecommendations ex_env_no_key ex_oracle_down ?s2 ''shop_1'' [1001]
        [Upsell, Crosssell] = Inl StorageError"
    by (rule C9_storage_errors_amended[THEN conjunct2, THEN conjunct1, THEN mp, OF a2])
  have a4: "\<not> connect_fails_getRecommendations ?s4
        \<and> getProductsByIds ?s4 [1001] = Inr [ex_tshirt] \<and> [ex_tshirt] \<noteq> []
        \<and> getRelatedTags ?s4 (collect_source_tags [ex_tshirt]) 50
            = Inr [''jeans'', ''sneakers'', ''polo'']
        \<and> query_fails_getCandidateProductsByTags ?s4"
    by (simp add: ex_collect_source_tags)
       (simp add: getProductsByIds_def getRelatedTags_def Set_add_def ex_storage_def
                  ex_products_def ex_defs)
  have r4: "getRecommendations ex_env_no_key ex_oracle_down ?s4 ''shop_1'' [1001]
        [Upsell, Crosssell] = Inl StorageError"
    by (rule C9_storage_errors_amended[THEN conjunct2, THEN conjunct2, THEN conjunct2,
               THEN conjunct1, THEN mp, OF a4])
  have f: "query_fails_tag_graph ex_storage_tag_fault ''t-shirt''"
    by (simp add: ex_storage_tag_fault_def)
  have a5: "\<not> connect_fails_getRecommendations ex_storage_tag_fault
        \<and> getProductsByIds ex_storage_tag_fault [1001] = Inr [ex_tshirt] \<and> [ex_tshirt] \<noteq> []
        \<and> \<not> connect_fails_getRelatedTags ex_storage_tag_fault
        \<and> (\<exists>tag \<in> set (collect_source_tags [ex_tshirt]).
              query_fails_tag_graph ex_storage_tag_fault tag)
        \<and> \<not> query_fails_getCandidateProductsByTags ex_storage_tag_fault"
    by (simp add: ex_tag_fault_getProductsByIds ex_collect_source_tags f)
       (simp add: ex_storage_tag_fault_def ex_storage_def)
  note r5 = C9_storage_errors_amended[THEN conjunct2, THEN conjunct2, THEN conjunct2,
               THEN conjunct2, THEN mp, OF a5,
               of ex_env_no_key ex_oracle_down "''shop_1''" "[Upsell, Crosssell]"]
  from a2 r2 a4 r4 f r5 show ?thesis by (intro conjI) simp_all
qed

section \<open>Source lookup across shops\<close>

text \<open>
  C10. The source lookup selects by id alone: a product stored under another shop
  than the requested one, with its id among the requested ids, is among the source
  products, and the rest of the request is computed from the source products found.
\<close>

theorem C10_source_lookup_ignores_shop:
  assumes "\<not> connect_fails_getRecommendations st"
    and "\<not> query_fails_getProductsByIds st"
    and "p \<in> set (products_table st)"
    and "product_id p \<in> set productIds"
    and "shop_id p \<noteq> shopId"
  shows "\<exists>sourceProducts.
           getProductsByIds st productIds = Inr sourceProducts
         \<and> p \<in> set sourceProducts
         \<and> getRecommendations env orc st shopId productIds rt
             = recommend_from_sources env orc st shopId productIds rt sourceProducts"
proof -
  let ?src = "filter (\<lambda>q. product_id q \<in> set productIds) (products_table st)"
  have g: "getProductsByIds st productIds = Inr ?src"
    using assms(2) by (simp add: getProductsByIds_def)
  have m: "p \<in> set ?src"
    using assms(3,4) by simp
  then have ne: "?src \<noteq> []"
    by (metis empty_iff empty_set)
  have "getRecommendations env orc st shopId productIds rt
          = recommend_from_sources env orc st shopId productIds rt ?src"
    using assms(1) g ne by (simp add: getRecommendations_def)
  with g m show ?thesis by blast
qed

lemma ex_foreign_sources:
  "getProductsByIds ex_storage [7001] = Inr [ex_foreign]"
  by (simp add: getProductsByIds_def ex_storage_def ex_products_def ex_defs)

lemma ex_foreign_recommendations:
  "recommend_from_sources ex_env_no_key ex_oracle_down ex_storage ''shop_1'' [7001]
      [Upsell, Crosssell] [ex_foreign]
     = Inr (fallback [ex_foreign] [ex_polo, ex_sneakers, ex_jeans])"
proof -
  have t: "collect_source_tags [ex_foreign] = [''t-shirt'']"
    by (simp add: collect_source_tags_def Set_add_def ex_foreign_def)
  have c: "getCandidateProductsByTags ex_storage ''shop_1'' [''jeans'', ''sneakers'', ''polo'']
             [7001] 100 = Inr [ex_polo, ex_sneakers, ex_jeans]"
    by (simp add: getCandidateProductsByTags_def ex_storage_def candidate_rows_def
                  candidate_where_def composite_score_def ex_products_def ex_defs)
  show ?thesis
    by (simp add: recommend_from_sources_def t ex_getRelatedTags c
                  findNearest_on_error[OF try_llm_config_error[OF ex_no_key]])
qed

theorem C10_source_lookup_ignores_shop_witness:
  "ex_foreign \<in> set (products_table ex_storage)
   \<and> product_id ex_foreign \<in> set [7001]
   \<and> shop_id ex_foreign \<noteq> ''shop_1''
   \<and> getProductsByIds ex_storage [7001] = Inr [ex_foreign]
   \<and> getRecommendations ex_env_no_key ex_oracle_down ex_storage ''shop_1'' [7001]
        [Upsell, Crosssell]
       = Inr (fallback [ex_foreign] [ex_polo, ex_sneakers, ex_jeans])"
proof -
  have h1: "\<not> connect_fails_getRecommendations ex_storage"
    and h2: "\<not> query_fails_getProductsByIds ex_storage"
    and h3: "ex_foreign \<in> set (products_table ex_storage)"
    by (simp_all add: ex_storage_def ex_products_def)
  have h4: "product_id ex_foreign \<in> set [7001]"
    and h5: "shop_id ex_foreign \<noteq> ''shop_1''"
    by (simp_all add: ex_foreign_def)
  from C10_source_lookup_ignores_shop[OF h1 h2 h3 h4 h5, of ex_env_no_key ex_oracle_down
         "[Upsell, Crosssell]"]
  obtain sourceProducts where
    s: "getProductsByIds ex_storage [7001] = Inr sourceProducts" and
    r: "getRecommendations ex_env_no_key ex_oracle_down ex_storage ''shop_1'' [7001]
          [Upsell, Crosssell]
        = recommend_from_sources ex_env_no_key ex_oracle_down ex_storage ''shop_1'' [7001]
            [Upsell, Crosssell] sourceProducts"
    by blast
  from s have "sourceProducts = [ex_foreign]" by (simp add: ex_foreign_sources)
  with r have "getRecommendations ex_env_no_key ex_oracle_down ex_storage ''shop_1'' [7001]
        [Upsell, Crosssell]
       = Inr (fallback [ex_foreign] [ex_polo, ex_sneakers, ex_jeans])"
    by (simp add: ex_foreign_recommendations)
  with h3 h4 h5 ex_foreign_sources show ?thesis by (intro conjI)
qed

section \<open>Tag normalizer: properties\<close>

lemma set_Set_add: "set (Set_add x s) = insert x (set s)"
  by (auto simp: Set_add_def)

lemma distinct_Set_add: "distinct s \<Longrightarrow> distinct (Set_add x s)"
  by (simp add: Set_add_def)

lemma set_fold_Set_add_if:
  "set (fold (\<lambda>x s. if P x then Set_add (f x) s else s) xs acc)
     = set acc \<union> f ` {x \<in> set xs. P x}"
  by (induction xs arbitrary: acc) (auto simp: set_Set_add)

lemma distinct_fold_Set_add_if:
  "distinct acc \<Longrightarrow> distinct (fold (\<lambda>x s. if P x then Set_add (f x) s else s) xs acc)"
  by (induction xs arbitrary: acc) (simp_all add: distinct_Set_add)

lemma set_fold_Set_add:
  "set (fold (\<lambda>x s. Set_add (f x) s) xs acc) = set acc \<union> f ` set xs"
  by (induction xs arbitrary: acc) (auto simp: set_Set_add)

lemma distinct_fold_Set_add:
  "distinct acc \<Longrightarrow> distinct (fold (\<lambda>x s. Set_add (f x) s) xs acc)"
  by (induction xs arbitrary: acc) (simp_all add: distinct_Set_add)

lemma ex_normalizeTags:
  "normalizeTags ex_catalog_sneakers =
     [''footwear'', ''canvas'', ''sneakers'', ''vendor:step-style'', ''price:premium'', ''summer'']"
  by code_simp

lemma ex_lowercased_category: "toLowerCase ''Footwear '' = ''footwear ''"
  by code_simp

text \<open>
  C6 as stated fails where the category (or a pre-existing tag) has white space at an
  end: for the category \<open>Footwear\<close> followed by a space the specification's set holds
  the lowercased category with its space, and the normalizer returns it trimmed.
\<close>

theorem C6_counterexample:
  "set (normalizeTags ex_catalog_sneakers) \<noteq> claimed_tags ex_catalog_sneakers"
proof -
  have a: "''footwear '' \<in> claimed_tags ex_catalog_sneakers"
    by (simp add: claimed_tags_def ex_catalog_sneakers_def ex_lowercased_category)
  have b: "''footwear '' \<notin> set (normalizeTags ex_catalog_sneakers)"
    by (simp add: ex_normalizeTags)
  from a b show ?thesis by blast
qed

text \<open>
  C6, amended. For every product the normalizer returns, without repetition, exactly
  the set of: the lowercased and trimmed category (when present and not empty); each
  piece of the lowercased title between runs of white space and hyphens that is
  longer than 3 characters and not a stop word; the vendor tag (when a vendor is
  present and not empty), with every run of white space in the lowercased vendor
  replaced by one hyphen; the one price-bucket tag; and every pre-existing tag,
  lowercased and trimmed. It is defined on every product.
\<close>

theorem C6_normalizeTags_amended:
  "set (normalizeTags product) = trimmed_tags product \<and> distinct (normalizeTags product)"
proof
  show "set (normalizeTags product) = trimmed_tags product"
    unfolding normalizeTags_def trimmed_tags_def title_part_def vendor_part_def Let_def
    by (auto simp: set_fold_Set_add_if set_fold_Set_add set_Set_add
             split: option.splits)
  show "distinct (normalizeTags product)"
    unfolding normalizeTags_def Let_def
    by (auto intro!: distinct_fold_Set_add distinct_fold_Set_add_if distinct_Set_add
             split: option.splits)
qed

theorem C6_normalizeTags_amended_witness:
  "set (normalizeTags ex_catalog_sneakers)
     = {''footwear'', ''canvas'', ''sneakers'', ''vendor:step-style'', ''price:premium'', ''summer''}
   \<and> trimmed_tags ex_catalog_sneakers
     = {''footwear'', ''canvas'', ''sneakers'', ''vendor:step-style'', ''price:premium'', ''summer''}
   \<and> distinct (normalizeTags ex_catalog_sneakers)"
  using C6_normalizeTags_amended[of ex_catalog_sneakers]
  by (simp add: ex_normalizeTags)

section \<open>Tracker: properties\<close>

lemma fold_max_bounds:
  "a \<le> fold max xs a \<and> (\<forall>x \<in> set xs. x \<le> fold max xs (a::nat))"
proof (induction xs arbitrary: a)
  case Nil
  show ?case by simp
next
  case (Cons y ys)
  have 1: "max y a \<le> fold max ys (max y a)"
    and 2: "\<forall>x \<in> set ys. x \<le> fold max ys (max y a)"
    using Cons.IH[of "max y a"] by simp_all
  from 1 have "a \<le> fold max ys (max y a)" and "y \<le> fold max ys (max y a)"
    by simp_all
  with 2 show ?case by simp
qed

lemma next_tracker_id_fresh:
  "r \<in> set tbl \<Longrightarrow> tracker_id r \<noteq> next_tracker_id tbl"
proof -
  assume "r \<in> set tbl"
  then have "tracker_id r \<in> set (map tracker_id tbl)" by simp
  with fold_max_bounds[of 0 "map tracker_id tbl"]
  have "tracker_id r \<le> fold max (map tracker_id tbl) 0" by blast
  then show ?thesis by (simp add: next_tracker_id_def)
qed

lemma next_tracker_id_not_zero: "next_tracker_id tbl \<noteq> 0"
  by (simp add: next_tracker_id_def)

lemma update_leaves_old_rows:
  "map (\<lambda>r. if tracker_id r = next_tracker_id tbl then f r else r) tbl = tbl"
  by (rule map_idI) (simp add: next_tracker_id_fresh)

lemma filter_old_rows:
  "filter (\<lambda>r. tracker_id r = next_tracker_id tbl) tbl = []"
  by (simp add: filter_empty_conv next_tracker_id_fresh)

lemma exec_insert:
  "exec_stmt (InsertRunning shop now) tbl = tbl @ [running_row shop now tbl]"
  by (simp add: running_row_def)

lemma exec_count_new_row:
  "tracker_id r = next_tracker_id tbl \<Longrightarrow>
   exec_stmt (UpdateProductCount n (next_tracker_id tbl)) (tbl @ [r])
     = tbl @ [r\<lparr>product_count := n\<rparr>]"
  by (simp add: update_leaves_old_rows)

lemma exec_completed_new_row:
  "tracker_id r = next_tracker_id tbl \<Longrightarrow>
   exec_stmt (UpdateCompleted (next_tracker_id tbl) now) (tbl @ [r])
     = tbl @ [r\<lparr>tracker_status := ''completed'', completed_at := Some now\<rparr>]"
  by (simp add: update_leaves_old_rows)

lemma exec_failed_new_row:
  "tracker_id r = next_tracker_id tbl \<Longrightarrow>
   exec_stmt (UpdateFailed (next_tracker_id tbl)) (tbl @ [r])
     = tbl @ [r\<lparr>tracker_status := ''failed''\<rparr>]"
  by (simp add: update_leaves_old_rows)

lemma filter_new_row:
  "tracker_id r = next_tracker_id tbl \<Longrightarrow>
   filter (\<lambda>q. tracker_id q = next_tracker_id tbl) (tbl @ [r]) = [r]"
  by (simp add: filter_old_rows)

lemma on_failure_marked:
  "mark_failed_ok w \<Longrightarrow>
   on_failure w (Some (next_tracker_id tbl)) e done
     = (Inl e, done @ [UpdateFailed (next_tracker_id tbl)])"
  by (simp add: on_failure_def next_tracker_id_not_zero)

lemma on_failure_unmarked:
  "\<not> mark_failed_ok w \<Longrightarrow>
   on_failure w (Some (next_tracker_id tbl)) e done = (Inl StorageError, done)"
  by (simp add: on_failure_def next_tracker_id_not_zero)

text \<open>
  The shapes of an invocation whose connection and INSERT succeed: it ends before or
  after the count update with a failure that is marked or not, or it completes.
\<close>

lemma runPrecomputation_shapes:
  assumes "connect_ok w" and "insert_tracker_ok w"
  shows "(\<exists>e body. runPrecomputation w shopId tbl
                  = (Inl e, InsertRunning shopId (clock_start w) # body)
              \<and> \<not> mark_failed_ok w
              \<and> (body = [] \<or> (\<exists>n. body = [UpdateProductCount n (next_tracker_id tbl)])))
       \<or> (\<exists>e body. runPrecomputation w shopId tbl
                  = (Inl e, InsertRunning shopId (clock_start w) # body
                              @ [UpdateFailed (next_tracker_id tbl)])
              \<and> mark_failed_ok w
              \<and> (body = [] \<or> (\<exists>n. body = [UpdateProductCount n (next_tracker_id tbl)])))
       \<or> (\<exists>n. runPrecomputation w shopId tbl
                  = (Inr (), [InsertRunning shopId (clock_start w),
                              UpdateProductCount n (next_tracker_id tbl),
                              UpdateCompleted (next_tracker_id tbl) (clock_end w)]))"
proof (cases "mark_failed_ok w")
  case True
  show ?thesis
    using assms True
    by (simp add: runPrecomputation_def Let_def on_failure_marked
             split: sum.splits)
next
  case False
  show ?thesis
    using assms False
    by (simp add: runPrecomputation_def Let_def on_failure_unmarked
             split: sum.splits)
qed

lemma running_row_fields:
  "tracker_id (running_row shop now tbl) = next_tracker_id tbl"
  "tracker_shop_id (running_row shop now tbl) = shop"
  "tracker_status (running_row shop now tbl) = ''running''"
  "completed_at (running_row shop now tbl) = None"
  by (simp_all add: running_row_def)

lemma new_id_not_old: "next_tracker_id tbl \<notin> tracker_id ` set tbl"
  using next_tracker_id_fresh[of _ tbl] by force

lemmas tracker_simps =
  exec_insert exec_count_new_row exec_completed_new_row exec_failed_new_row
  filter_new_row filter_old_rows running_row_fields new_id_not_old

lemma row_facts_unmarked_early:
  "\<not> mark_failed_ok w \<Longrightarrow>
   row_facts w shopId tbl (Inl e) [InsertRunning shopId now]
     (running_row shopId now tbl) 0"
  unfolding row_facts_def
  by (simp del: exec_stmt.simps add: tracker_simps)

lemma row_facts_unmarked_late:
  "\<not> mark_failed_ok w \<Longrightarrow>
   row_facts w shopId tbl (Inl e)
     [InsertRunning shopId now, UpdateProductCount n (next_tracker_id tbl)]
     ((running_row shopId now tbl)\<lparr>product_count := n\<rparr>) 1"
  unfolding row_facts_def
  by (simp del: exec_stmt.simps add: tracker_simps)

lemma row_facts_marked_early:
  "mark_failed_ok w \<Longrightarrow>
   row_facts w shopId tbl (Inl e)
     [InsertRunning shopId now, UpdateFailed (next_tracker_id tbl)]
     ((running_row shopId now tbl)\<lparr>tracker_status := ''failed''\<rparr>) 0"
  unfolding row_facts_def
  by (simp del: exec_stmt.simps add: tracker_simps)

lemma row_facts_marked_late:
  "mark_failed_ok w \<Longrightarrow>
   row_facts w shopId tbl (Inl e)
     [InsertRunning shopId now, UpdateProductCount n (next_tracker_id tbl),
      UpdateFailed (next_tracker_id tbl)]
     ((running_row shopId now tbl)\<lparr>product_count := n, tracker_status := ''failed''\<rparr>) 1"
  unfolding row_facts_def
  by (simp del: exec_stmt.simps add: tracker_simps)

lemma row_facts_completed:
  "row_facts w shopId tbl (Inr ())
     [InsertRunning shopId now, UpdateProductCount n (next_tracker_id tbl),
      UpdateCompleted (next_tracker_id tbl) t]
     ((running_row shopId now tbl)\<lparr>product_count := n, tracker_status := ''completed'',
                                   completed_at := Some t\<rparr>) 1"
  unfolding row_facts_def
  by (simp del: exec_stmt.simps add: tracker_simps)

lemma runPrecomputation_no_record:
  assumes "\<not> (connect_ok w \<and> insert_tracker_ok w)"
  shows "runPrecomputation w shopId tbl = (Inl StorageError, [])"
  using assms by (auto simp: runPrecomputation_def on_failure_def)

lemma runPrecomputation_row_facts:
  assumes "connect_ok w" and "insert_tracker_ok w"
  shows "\<exists>r k. row_facts w shopId tbl (fst (runPrecomputation w shopId tbl))
                 (snd (runPrecomputation w shopId tbl)) r k"
proof -
  from runPrecomputation_shapes[OF assms, of shopId tbl]
  consider
    (unmarked) e body where
      "runPrecomputation w shopId tbl = (Inl e, InsertRunning shopId (clock_start w) # body)"
      "\<not> mark_failed_ok w"
      "body = [] \<or> (\<exists>n. body = [UpdateProductCount n (next_tracker_id tbl)])"
  | (marked) e body where
      "runPrecomputation w shopId tbl
         = (Inl e, InsertRunning shopId (clock_start w) # body
                     @ [UpdateFailed (next_tracker_id tbl)])"
      "mark_failed_ok w"
      "body = [] \<or> (\<exists>n. body = [UpdateProductCount n (next_tracker_id tbl)])"
  | (completed) n where
      "runPrecomputation w shopId tbl
         = (Inr (), [InsertRunning shopId (clock_start w),
                     UpdateProductCount n (next_tracker_id tbl),
                     UpdateCompleted (next_tracker_id tbl) (clock_end w)])"
    by blast
  then show ?thesis
  proof cases
    case unmarked
    from unmarked(3) show ?thesis
    proof
      assume "body = []"
      with unmarked(1) row_facts_unmarked_early[OF unmarked(2)] show ?thesis
        by (metis fst_conv snd_conv)
    next
      assume "\<exists>n. body = [UpdateProductCount n (next_tracker_id tbl)]"
      then obtain n where "body = [UpdateProductCount n (next_tracker_id tbl)]" ..
      with unmarked(1) row_facts_unmarked_late[OF unmarked(2)] show ?thesis
        by (metis fst_conv snd_conv)
    qed
  next
    case marked
    from marked(3) show ?thesis
    proof
      assume "body = []"
      with marked(1) row_facts_marked_early[OF marked(2)] show ?thesis
        by (metis append_Nil fst_conv snd_conv)
    next
      assume "\<exists>n. body = [UpdateProductCount n (next_tracker_id tbl)]"
      then obtain n where "body = [UpdateProductCount n (next_tracker_id tbl)]" ..
      with marked(1) row_facts_marked_late[OF marked(2)] show ?thesis
        by (metis append_Cons append_Nil fst_conv snd_conv)
    qed
  next
    case completed
    with row_facts_completed show ?thesis
      by (metis fst_conv snd_conv)
  qed
qed

text \<open>
  C7 as stated fails when the INSERT of the tracker row is rejected: the invocation
  ends with the error, it has executed no statement, and the table has no record of
  it, in no status.
\<close>

theorem C7_counterexample:
  "runPrecomputation ex_world_insert_rejected ''shop_1'' [] = (Inl StorageError, [])
   \<and> fold exec_stmt (snd (runPrecomputation ex_world_insert_rejected ''shop_1'' [])) [] = []"
  by (simp add: runPrecomputation_def on_failure_def ex_world_insert_rejected_def
                ex_world_ok_def)

text \<open>
  C7, amended. An invocation whose connection or initial INSERT is rejected creates
  no tracker record and ends with that error. Every other invocation creates exactly
  one record, under a fresh id, starting in status running, and leaves the other
  records as they were; the record's status after each statement is running, once or
  more, followed by at most one other status, which is completed or failed; the final
  status is completed exactly when the invocation succeeds and exactly when
  \<open>completed_at\<close> is set, and failed exactly when the invocation throws and the
  UPDATE that marks the failure succeeds (it stays running when that UPDATE is
  rejected).
\<close>

theorem C7_tracker_amended:
  "(\<not> (connect_ok w \<and> insert_tracker_ok w) \<longrightarrow>
      runPrecomputation w shopId tbl = (Inl StorageError, []))
   \<and> (connect_ok w \<and> insert_tracker_ok w \<longrightarrow>
      (\<exists>r k.
         fold exec_stmt (snd (runPrecomputation w shopId tbl)) tbl = tbl @ [r]
       \<and> tracker_id r = next_tracker_id tbl
       \<and> tracker_id r \<notin> tracker_id ` set tbl
       \<and> tracker_shop_id r = shopId
       \<and> tracker_status r \<in> {''running'', ''completed'', ''failed''}
       \<and> ((tracker_status r = ''completed'') = (fst (runPrecomputation w shopId tbl) = Inr ()))
       \<and> ((completed_at r \<noteq> None) = (tracker_status r = ''completed''))
       \<and> ((mark_failed_ok w \<and> fst (runPrecomputation w shopId tbl) \<noteq> Inr ())
            = (tracker_status r = ''failed''))
       \<and> status_history (next_tracker_id tbl) (snd (runPrecomputation w shopId tbl)) tbl
           = replicate (Suc k) ''running''
             @ (if tracker_status r = ''running'' then [] else [tracker_status r])))"
proof (intro conjI impI)
  assume "\<not> (connect_ok w \<and> insert_tracker_ok w)"
  then show "runPrecomputation w shopId tbl = (Inl StorageError, [])"
    by (rule runPrecomputation_no_record)
next
  assume "connect_ok w \<and> insert_tracker_ok w"
  then have "\<exists>r k. row_facts w shopId tbl (fst (runPrecomputation w shopId tbl))
                 (snd (runPrecomputation w shopId tbl)) r k"
    by (simp add: runPrecomputation_row_facts)
  then show "\<exists>r k.
         fold exec_stmt (snd (runPrecomputation w shopId tbl)) tbl = tbl @ [r]
       \<and> tracker_id r = next_tracker_id tbl
       \<and> tracker_id r \<notin> tracker_id ` set tbl
       \<and> tracker_shop_id r = shopId
       \<and> tracker_status r \<in> {''running'', ''completed'', ''failed''}
       \<and> ((tracker_status r = ''completed'') = (fst (runPrecomputation w shopId tbl) = Inr ()))
       \<and> ((completed_at r \<noteq> None) = (tracker_status r = ''completed''))
       \<and> ((mark_failed_ok w \<and> fst (runPrecomputation w shopId tbl) \<noteq> Inr ())
            = (tracker_status r = ''failed''))
       \<and> status_history (next_tracker_id tbl) (snd (runPrecomputation w shopId tbl)) tbl
           = replicate (Suc k) ''running''
             @ (if tracker_status r = ''running'' then [] else [tracker_status r])"
    unfolding row_facts_def .
qed

lemma ex_run_ok:
  "runPrecomputation ex_world_ok ''shop_1'' []
     = (Inr (), [InsertRunning ''shop_1'' 100, UpdateProductCount 4 1, UpdateCompleted 1 160])"
  by (simp add: runPrecomputation_def next_tracker_id_def ex_world_ok_def)

lemma ex_run_save_rejected:
  "runPrecomputation ex_world_save_rejected ''shop_1'' []
     = (Inl StorageError, [InsertRunning ''shop_1'' 100, UpdateProductCount 4 1, UpdateFailed 1])"
  by (simp add: runPrecomputation_def on_failure_def next_tracker_id_def
                ex_world_save_rejected_def ex_world_ok_def)

theorem C7_tracker_amended_witness:
  "connect_ok ex_world_ok \<and> insert_tracker_ok ex_world_ok
   \<and> fold exec_stmt (snd (runPrecomputation ex_world_ok ''shop_1'' [])) []
       = [\<lparr>tracker_id = 1, tracker_shop_id = ''shop_1'', tracker_status = ''completed'',
           product_count = 4, started_at = 100, completed_at = Some 160, last_run = 100\<rparr>]
   \<and> status_history 1 (snd (runPrecomputation ex_world_ok ''shop_1'' [])) []
       = [''running'', ''running'', ''completed'']
   \<and> (\<exists>r. fold exec_stmt (snd (runPrecomputation ex_world_ok ''shop_1'' [])) [] = [r]
          \<and> tracker_status r = ''completed'' \<and> completed_at r \<noteq> None)
   \<and> connect_ok ex_world_save_rejected \<and> insert_tracker_ok ex_world_save_rejected
   \<and> fold exec_stmt (snd (runPrecomputation ex_world_save_rejected ''shop_1'' [])) []
       = [\<lparr>tracker_id = 1, tracker_shop_id = ''shop_1'', tracker_status = ''failed'',
           product_count = 4, started_at = 100, completed_at = None, last_run = 100\<rparr>]
   \<and> (\<exists>r. fold exec_stmt (snd (runPrecomputation ex_world_save_rejected ''shop_1'' [])) [] = [r]
          \<and> tracker_status r = ''failed'' \<and> completed_at r = None)"
proof -
  have h1: "connect_ok ex_world_ok \<and> insert_tracker_ok ex_world_ok"
    by (simp add: ex_world_ok_def)
  have h2: "connect_ok ex_world_save_rejected \<and> insert_tracker_ok ex_world_save_rejected"
    and m2: "mark_failed_ok ex_world_save_rejected"
    by (simp_all add: ex_world_save_rejected_def ex_world_ok_def)
  have t1: "fold exec_stmt (snd (runPrecomputation ex_world_ok ''shop_1'' [])) []
       = [\<lparr>tracker_id = 1, tracker_shop_id = ''shop_1'', tracker_status = ''completed'',
           product_count = 4, started_at = 100, completed_at = Some 160, last_run = 100\<rparr>]"
    by (simp add: ex_run_ok next_tracker_id_def)
  have s1: "status_history 1 (snd (runPrecomputation ex_world_ok ''shop_1'' [])) []
       = [''running'', ''running'', ''completed'']"
    by (simp add: ex_run_ok next_tracker_id_def)
  have t2: "fold exec_stmt (snd (runPrecomputation ex_world_save_rejected ''shop_1'' [])) []
       = [\<lparr>tracker_id = 1, tracker_shop_id = ''shop_1'', tracker_status = ''failed'',
           product_count = 4, started_at = 100, completed_at = None, last_run = 100\<rparr>]"
    by (simp add: ex_run_save_rejected next_tracker_id_def)
  from C7_tracker_amended[of ex_world_ok "''shop_1''" "[]", THEN conjunct2, THEN mp, OF h1]
  obtain r where r: "fold exec_stmt (snd (runPrecomputation ex_world_ok ''shop_1'' [])) [] = [] @ [r]"
    and c: "(tracker_status r = ''completed'')
              = (fst (runPrecomputation ex_world_ok ''shop_1'' []) = Inr ())"
    and a: "(completed_at r \<noteq> None) = (tracker_status r = ''completed'')"
    by blast
  from c have c': "tracker_status r = ''completed''" by (simp add: ex_run_ok)
  with a have a': "completed_at r \<noteq> None" by simp
  from r c' a' have e1: "\<exists>r. fold exec_stmt (snd (runPrecomputation ex_world_ok ''shop_1'' [])) [] = [r]
          \<and> tracker_status r = ''completed'' \<and> completed_at r \<noteq> None"
    by auto
  from C7_tracker_amended[of ex_world_save_rejected "''shop_1''" "[]", THEN conjunct2, THEN mp, OF h2]
  obtain q where q: "fold exec_stmt (snd (runPrecomputation ex_world_save_rejected ''shop_1'' [])) []
                       = [] @ [q]"
    and f: "(mark_failed_ok ex_world_save_rejected
              \<and> fst (runPrecomputation ex_world_save_rejected ''shop_1'' []) \<noteq> Inr ())
            = (tracker_status q = ''failed'')"
    and b: "(completed_at q \<noteq> None) = (tracker_status q = ''completed'')"
    by blast
  from f m2 have f': "tracker_status q = ''failed''" by (simp add: ex_run_save_rejected)
  with b have b': "completed_at q = None" by simp
  from q f' b' have e2: "\<exists>r. fold exec_stmt (snd (runPrecomputation ex_world_save_rejected ''shop_1'' [])) [] = [r]
          \<and> tracker_status r = ''failed'' \<and> completed_at r = None"
    by auto
  from h1 t1 s1 e1 h2 t2 e2 show ?thesis by (intro conjI) simp_all
qed

end
